theory Spec2Isabelle
  imports Complex_Main
begin

section \<open>Python values, strings and errors\<close>

text \<open>
  The module \<^verbatim>\<open>utils.py\<close> has three functions, \<^verbatim>\<open>get_top_list\<close>,
  \<^verbatim>\<open>get_last_season\<close> and \<^verbatim>\<open>get_ratings\<close>. They fetch pages, query the parsed
  document, cut strings and append rows to a table. The embedding keeps the order of
  the statements, and every exception a statement can raise is a value \<open>Inl e\<close>.

  A string is a list of characters with code points below 256. The exceptions are the
  ones the statements of the module raise; \<open>TransportError\<close> stands for whatever the
  HTTP layer raises.
\<close>

datatype py_error =
    ValueError | IndexError | KeyError | TypeError | AttributeError
  | UnboundLocalError | OverflowError | MemoryError | TransportError

text \<open>
  \<^verbatim>\<open>str.isspace\<close> on the code points below 256: the characters \<^verbatim>\<open>str.strip()\<close>
  removes from both ends.
\<close>

definition is_space :: "char \<Rightarrow> bool" where
  "is_space c \<longleftrightarrow> (of_char c :: nat) \<in> {9, 10, 11, 12, 13, 28, 29, 30, 31, 32, 133, 160}"

definition py_strip :: "string \<Rightarrow> string" where
  "py_strip s = rev (dropWhile is_space (rev (dropWhile is_space s)))"

text \<open>
  \<^verbatim>\<open>s.split(sep)\<close> for a separator of one character: the pieces between the
  occurrences of the separator, always at least one piece. The scan carries the piece
  it is reading, last character first.
\<close>

fun split_scan :: "char \<Rightarrow> string \<Rightarrow> string \<Rightarrow> string list" where
  "split_scan sep piece [] = [rev piece]"
| "split_scan sep piece (c # cs) =
     (if c = sep then rev piece # split_scan sep [] cs
      else split_scan sep (c # piece) cs)"

definition py_split :: "char \<Rightarrow> string \<Rightarrow> string list" where
  "py_split sep s = split_scan sep [] s"

text \<open>\<^verbatim>\<open>s.replace(old, new)\<close> for \<open>old\<close> of one character.\<close>

definition py_replace :: "char \<Rightarrow> string \<Rightarrow> string \<Rightarrow> string" where
  "py_replace old new s = concat (map (\<lambda>c. if c = old then new else [c]) s)"

text \<open>\<^verbatim>\<open>xs[i]\<close> for a list and a non-negative index: \<open>IndexError\<close> out of range.\<close>

definition py_index :: "'a list \<Rightarrow> nat \<Rightarrow> py_error + 'a" where
  "py_index xs i = (if i < length xs then Inr (xs ! i) else Inl IndexError)"

text \<open>
  \<^verbatim>\<open>int(s)\<close> for a string, base ten: white space around the literal is skipped, then
  an optional sign, then decimal digits with single underscores allowed between two
  digits. Anything else is a \<open>ValueError\<close>. The white space \<^verbatim>\<open>int\<close> skips is the
  C locale's (tab to carriage return, blank) and the non-ASCII spaces; the value is
  unbounded, as a Python integer is.
\<close>

definition is_digit :: "char \<Rightarrow> bool" where
  "is_digit c \<longleftrightarrow> 48 \<le> (of_char c :: nat) \<and> (of_char c :: nat) \<le> 57"

definition digit_val :: "char \<Rightarrow> nat" where
  "digit_val c = of_char c - 48"

definition is_int_space :: "char \<Rightarrow> bool" where
  "is_int_space c \<longleftrightarrow> (of_char c :: nat) \<in> {9, 10, 11, 12, 13, 32, 133, 160}"

fun digits_ok :: "string \<Rightarrow> bool" where
  "digits_ok [] = False"
| "digits_ok [c] = is_digit c"
| "digits_ok (c # d # cs) =
     (is_digit c \<and> (if d = CHR ''_'' then digits_ok cs else digits_ok (d # cs)))"

definition digits_value :: "string \<Rightarrow> nat" where
  "digits_value s = foldl (\<lambda>a c. 10 * a + digit_val c) 0 (filter (\<lambda>c. c \<noteq> CHR ''_'') s)"

definition py_int :: "string \<Rightarrow> py_error + int" where
  "py_int s =
     (let t = rev (dropWhile is_int_space (rev (dropWhile is_int_space s)));
          neg = (t \<noteq> [] \<and> hd t = CHR ''-'');
          body = (if t \<noteq> [] \<and> (hd t = CHR ''-'' \<or> hd t = CHR ''+'') then tl t else t)
      in if digits_ok body
         then Inr (if neg then - int (digits_value body) else int (digits_value body))
         else Inl ValueError)"

text \<open>The decimal rendering of an integer, as an f-string writes it.\<close>

function show_nat :: "nat \<Rightarrow> string" where
  "show_nat n =
     (if n < 10 then [''0123456789'' ! n]
      else show_nat (n div 10) @ [''0123456789'' ! (n mod 10)])"
  by pat_completeness auto
termination
  by (relation "measure id") auto

declare show_nat.simps [simp del]

definition show_int :: "int \<Rightarrow> string" where
  "show_int i = (if i < 0 then CHR ''-'' # show_nat (nat (- i)) else show_nat (nat i))"

text \<open>
  A 64-bit column takes an integer only inside the signed 64-bit range; storing a
  larger one raises \<open>OverflowError\<close>.
\<close>

definition int64_range :: "int \<Rightarrow> py_error + int" where
  "int64_range n =
     (if - (2 ^ 63) \<le> n \<and> n < 2 ^ 63 then Inr n else Inl OverflowError)"

text \<open>Sequencing of statements that may raise.\<close>

definition and_then :: "py_error + 'a \<Rightarrow> ('a \<Rightarrow> py_error + 'b) \<Rightarrow> py_error + 'b" where
  "and_then m f = (case m of Inl e \<Rightarrow> Inl e | Inr x \<Rightarrow> f x)"

text \<open>
  \<^verbatim>\<open>try: v = body  except exc: v = handler\<close>: only the named exception is caught.
\<close>

definition try_except :: "py_error + 'a \<Rightarrow> py_error \<Rightarrow> 'a \<Rightarrow> py_error + 'a" where
  "try_except body exc handler =
     (case body of Inr v \<Rightarrow> Inr v | Inl e \<Rightarrow> if e = exc then Inr handler else Inl e)"

fun traverse :: "('a \<Rightarrow> py_error + 'b) \<Rightarrow> 'a list \<Rightarrow> py_error + 'b list" where
  "traverse f [] = Inr []"
| "traverse f (x # xs) =
     (case f x of Inl e \<Rightarrow> Inl e
      | Inr y \<Rightarrow> (case traverse f xs of Inl e \<Rightarrow> Inl e | Inr ys \<Rightarrow> Inr (y # ys)))"

section \<open>Parsed pages\<close>

text \<open>
  The HTML parser and the HTTP client are libraries. A parsed page is what the queries
  of the module return on it: an element is its attributes and its text; a title cell
  of the chart is its text and the result of \<^verbatim>\<open>ser.find("a")\<close>; an episode block is
  the results of the four \<^verbatim>\<open>episode.find(...)\<close> queries, each the first match or
  absent; a page is the results of the three queries made on a whole document.
\<close>

record tag =
  tag_attrs :: "string \<rightharpoonup> string"
  tag_text :: string

record title_cell =
  cell_text :: string
  cell_anchor :: "tag option"

record episode_block =
  item_description :: "tag option"
  rating_star :: "tag option"
  total_votes_node :: "tag option"
  episode_number :: "tag option"

record soup =
  title_cells :: "title_cell list"
  season_selector :: "tag option"
  info_blocks :: "episode_block list"

text \<open>
  The values a local variable of the module holds: \<^verbatim>\<open>None\<close>, an element, a string
  or an integer. \<^verbatim>\<open>x.text\<close> exists on an element only; \<^verbatim>\<open>x[key]\<close> with a string
  key reads an attribute of an element (\<open>KeyError\<close> when it has none of that name) and is
  a \<open>TypeError\<close> on \<^verbatim>\<open>None\<close>, on an integer and on a string.
\<close>

datatype pyobj = PNone | PTag tag | PStr string | PInt int

definition of_find :: "tag option \<Rightarrow> pyobj" where
  "of_find r = (case r of None \<Rightarrow> PNone | Some t \<Rightarrow> PTag t)"

definition py_text :: "pyobj \<Rightarrow> py_error + string" where
  "py_text x = (case x of PTag t \<Rightarrow> Inr (tag_text t) | _ \<Rightarrow> Inl AttributeError)"

definition py_getitem :: "pyobj \<Rightarrow> string \<Rightarrow> py_error + string" where
  "py_getitem x key =
     (case x of
        PTag t \<Rightarrow> (case tag_attrs t key of None \<Rightarrow> Inl KeyError | Some v \<Rightarrow> Inr v)
      | _ \<Rightarrow> Inl TypeError)"

section \<open>The top list\<close>

record series_row =
  series_name :: string
  series_rank :: string
  series_origin_year :: string
  series_link :: string

record series_entry = series_row +
  series_id :: string

text \<open>
  The body of the loop of \<^verbatim>\<open>get_top_list\<close> over the title cells, in the order of
  its statements: the anchor, the rank, the title (\<^verbatim>\<open>split(".")[1]\<close> raises
  \<open>IndexError\<close> on a text with no full stop), the year (\<^verbatim>\<open>split("(")[1]\<close> likewise),
  then the row, whose \<^verbatim>\<open>series_link["href"]\<close> raises on a cell with no anchor.
\<close>

definition parse_cell :: "title_cell \<Rightarrow> py_error + series_row" where
  "parse_cell ser =
     (let link_tag = of_find (cell_anchor ser);
          rank = py_strip (hd (py_split CHR ''.'' (cell_text ser)))
      in and_then (py_index (py_split CHR ''.'' (cell_text ser)) 1) (\<lambda>after_dot.
         let title = py_strip (hd (py_split CHR ''('' after_dot))
         in and_then (py_index (py_split CHR ''('' (cell_text ser)) 1) (\<lambda>after_paren.
            let year = py_strip (py_replace CHR '')'' [] after_paren)
            in and_then (py_getitem link_tag ''href'') (\<lambda>href.
               Inr \<lparr>series_name = title, series_rank = rank,
                    series_origin_year = year, series_link = href\<rparr>))))"

fun top_list_loop :: "title_cell list \<Rightarrow> series_row list \<Rightarrow> py_error + series_row list" where
  "top_list_loop [] acc = Inr acc"
| "top_list_loop (ser # rest) acc =
     (case parse_cell ser of
        Inl e \<Rightarrow> Inl e
      | Inr row \<Rightarrow> top_list_loop rest (acc @ [row]))"

text \<open>The derived column, computed on the finished table.\<close>

definition add_series_id :: "series_row \<Rightarrow> series_entry" where
  "add_series_id r =
     \<lparr>series_name = series_name r, series_rank = series_rank r,
      series_origin_year = series_origin_year r, series_link = series_link r,
      series_id = series_name r @ '' ('' @ series_origin_year r @ '')''\<rparr>"

definition top_url :: string where
  "top_url = ''https://www.imdb.com/chart/toptv/?ref_=nv_tvv_250''"

text \<open>
  \<^verbatim>\<open>get_top_list\<close>; its argument stands for \<^verbatim>\<open>requests.get\<close> followed by the parse.
\<close>

definition get_top_list :: "(string \<Rightarrow> py_error + soup) \<Rightarrow> py_error + series_entry list" where
  "get_top_list requests_get =
     and_then (requests_get top_url) (\<lambda>page.
     and_then (top_list_loop (title_cells page) []) (\<lambda>rows.
     Inr (map add_series_id rows)))"

section \<open>The caller's table and the console\<close>

text \<open>
  \<^verbatim>\<open>get_last_season\<close> and \<^verbatim>\<open>get_ratings\<close> receive the top list by reference and
  write to the console, so both are state: the table the argument \<^verbatim>\<open>top_list\<close>
  refers to, and the sequence of effects so far. Each \<^verbatim>\<open>print\<close> of the module is
  one constructor of \<open>message\<close>, carrying the values the line interpolates (the name as
  passed, before \<^verbatim>\<open>upper()\<close>); \<open>Sleep\<close> is a \<^verbatim>\<open>time.sleep\<close> of 5 to 15 seconds,
  \<open>Get url\<close> a request of the session. The session is the function from the URL
  to the parsed answer or to the exception of the HTTP layer.
\<close>

datatype message =
    Banner
  | Scraping string
  | NotUnique string
  | TotalSeasons int
  | GettingEpisodes
  | SeasonScraped int
  | TotalEpisodes string nat

datatype event = Print message | Sleep | Get string

record world =
  top_list :: "series_entry list"
  console :: "event list"

definition emit :: "event \<Rightarrow> world \<Rightarrow> world" where
  "emit ev w = w\<lparr>console := console w @ [ev]\<rparr>"

text \<open>
  \<^verbatim>\<open>top_list[top_list['series_name'] == name][col].item()\<close>: the rows whose name is
  equal to \<open>name\<close> are selected into a new table, and \<^verbatim>\<open>item()\<close> returns the one
  value of the column or raises \<open>ValueError\<close> when there is none or more than one.
\<close>

definition lookup_item ::
  "(series_entry \<Rightarrow> string) \<Rightarrow> string \<Rightarrow> series_entry list \<Rightarrow> py_error + string" where
  "lookup_item col name tbl =
     (case filter (\<lambda>r. series_name r = name) tbl of
        [r] \<Rightarrow> Inr (col r)
      | _ \<Rightarrow> Inl ValueError)"

text \<open>
  The \<^verbatim>\<open>try\<close> statement that opens both functions. The local \<^verbatim>\<open>series_link\<close> is
  bound only when the lookup returns; the handler prints and binds nothing.
\<close>

definition try_series_link :: "string \<Rightarrow> world \<Rightarrow> (py_error + string option) \<times> world" where
  "try_series_link name w =
     (case lookup_item series_link name (top_list w) of
        Inr l \<Rightarrow> (Inr (Some l), w)
      | Inl e \<Rightarrow>
          if e = ValueError then (Inr None, emit (Print (NotUnique name)) w)
          else (Inl e, w))"

definition base_url :: string where
  "base_url = ''https://www.imdb.com''"

section \<open>The number of seasons\<close>

definition get_last_season ::
  "string \<Rightarrow> (string \<Rightarrow> py_error + soup) \<Rightarrow> world \<Rightarrow> (py_error + int) \<times> world" where
  "get_last_season name session w0 =
     (let w1 = emit Sleep (emit (Print (Scraping name)) (emit (Print Banner) w0))
      in case try_series_link name w1 of
           (Inl e, w2) \<Rightarrow> (Inl e, w2)
         | (Inr None, w2) \<Rightarrow> (Inl UnboundLocalError, w2)
         | (Inr (Some link), w2) \<Rightarrow>
             (let w3 = emit (Get (base_url @ link)) w2
              in case session (base_url @ link) of
                   Inl e \<Rightarrow> (Inl e, w3)
                 | Inr page \<Rightarrow>
                     (case (case season_selector page of
                              None \<Rightarrow> Inr 1
                            | Some sel \<Rightarrow>
                                and_then (py_getitem (PTag sel) ''aria-label'') (\<lambda>label.
                                py_int (hd (py_split CHR '' '' label)))) of
                        Inl e \<Rightarrow> (Inl e, w3)
                      | Inr max_season \<Rightarrow>
                          (Inr max_season, emit (Print (TotalSeasons max_season)) w3))))"

section \<open>The episodes\<close>

text \<open>
  A row as the loop appends it, before the columns are converted: the rating is the
  text of the node or the integer \<open>-1\<close>, the votes the cleaned text or the integer \<open>0\<close>.
\<close>

record raw_row =
  raw_series_name :: string
  raw_series_rank :: string
  raw_series_origin_year :: string
  raw_series_link :: string
  raw_series_n_seasons :: int
  raw_season :: int
  raw_episode :: string
  raw_episode_rating :: pyobj
  raw_episode_total_votes :: pyobj
  raw_episode_description :: string

text \<open>The four \<^verbatim>\<open>try\<close> statements of the body of the loop over the episode blocks.\<close>

definition get_description :: "tag option \<Rightarrow> py_error + string" where
  "get_description node =
     try_except (and_then (py_text (of_find node)) (\<lambda>t. Inr (py_strip t)))
       AttributeError ''N/A''"

definition get_rating :: "tag option \<Rightarrow> py_error + pyobj" where
  "get_rating node =
     try_except (and_then (py_text (of_find node)) (\<lambda>t. Inr (PStr t)))
       AttributeError (PInt (- 1))"

definition get_total_votes :: "tag option \<Rightarrow> py_error + pyobj" where
  "get_total_votes node =
     try_except
       (and_then (py_text (of_find node)) (\<lambda>t.
          Inr (PStr (py_replace CHR '','' [] (py_replace CHR '')'' [] (py_replace CHR ''('' [] t))))))
       AttributeError (PInt 0)"

definition get_number :: "tag option \<Rightarrow> py_error + pyobj" where
  "get_number node = try_except (Inr (of_find node)) AttributeError (PInt (- 1))"

text \<open>
  The body of the loop over the episode blocks: the four extractions, then the row,
  whose entries are evaluated in the order they are written.
\<close>

definition episode_row ::
  "string \<Rightarrow> string \<Rightarrow> int \<Rightarrow> int \<Rightarrow> series_entry list \<Rightarrow> episode_block \<Rightarrow> py_error + raw_row" where
  "episode_row name link seasons season_no tbl blk =
     and_then (get_description (item_description blk)) (\<lambda>description.
     and_then (get_rating (rating_star blk)) (\<lambda>rating.
     and_then (get_total_votes (total_votes_node blk)) (\<lambda>votes.
     and_then (get_number (episode_number blk)) (\<lambda>number.
     and_then (lookup_item series_rank name tbl) (\<lambda>rank.
     and_then (lookup_item series_origin_year name tbl) (\<lambda>year.
     and_then (py_getitem number ''content'') (\<lambda>content.
       Inr \<lparr>raw_series_name = name, raw_series_rank = rank,
            raw_series_origin_year = year, raw_series_link = link,
            raw_series_n_seasons = seasons, raw_season = season_no,
            raw_episode = content, raw_episode_rating = rating,
            raw_episode_total_votes = votes,
            raw_episode_description = description\<rparr>)))))))"

fun episodes_loop ::
  "string \<Rightarrow> string \<Rightarrow> int \<Rightarrow> int \<Rightarrow> series_entry list \<Rightarrow> episode_block list \<Rightarrow> raw_row list
     \<Rightarrow> py_error + raw_row list" where
  "episodes_loop name link seasons season_no tbl [] df = Inr df"
| "episodes_loop name link seasons season_no tbl (blk # rest) df =
     (case episode_row name link seasons season_no tbl blk of
        Inl e \<Rightarrow> Inl e
      | Inr row \<Rightarrow> episodes_loop name link seasons season_no tbl rest (df @ [row]))"

definition season_url :: "string \<Rightarrow> int \<Rightarrow> string" where
  "season_url link season_no = base_url @ link @ ''episodes?season='' @ show_int season_no"

text \<open>
  The loop over the seasons, on the values of the array it is given. The table built so
  far and the state are carried from one season to the next. In each round the pause and
  the use of \<^verbatim>\<open>series_link\<close> come first, then the request, the blocks of the page,
  and the progress line.
\<close>

fun seasons_loop ::
  "string \<Rightarrow> string option \<Rightarrow> int \<Rightarrow> (string \<Rightarrow> py_error + soup) \<Rightarrow> int list \<Rightarrow> raw_row list
     \<Rightarrow> world \<Rightarrow> (py_error + raw_row list) \<times> world" where
  "seasons_loop name link_var seasons session [] df w = (Inr df, w)"
| "seasons_loop name link_var seasons session (season_no # rest) df w =
     (let w1 = emit Sleep w
      in case link_var of
           None \<Rightarrow> (Inl UnboundLocalError, w1)
         | Some link \<Rightarrow>
             (let w2 = emit (Get (season_url link season_no)) w1
              in case session (season_url link season_no) of
                   Inl e \<Rightarrow> (Inl e, w2)
                 | Inr page \<Rightarrow>
                     (case episodes_loop name link seasons season_no (top_list w2)
                             (info_blocks page) df of
                        Inl e \<Rightarrow> (Inl e, w2)
                      | Inr df' \<Rightarrow>
                          seasons_loop name link_var seasons session rest df'
                            (emit (Print (SeasonScraped season_no)) w2))))"

text \<open>
  The conversion of the columns. A value of an integer column is converted as
  \<^verbatim>\<open>int\<close> converts it and must fit 64 bits. The conversion of a string and of an
  integer to a 64-bit float belongs to the interpreter; it is the pair of parameters
  \<open>float_of_str\<close> (\<open>None\<close> where \<^verbatim>\<open>float(s)\<close> raises \<open>ValueError\<close>) and
  \<open>float_of_int\<close>, and \<open>'f\<close> is the type of the floats.
\<close>

definition to_int64 :: "pyobj \<Rightarrow> py_error + int" where
  "to_int64 v =
     (case v of
        PInt n \<Rightarrow> int64_range n
      | PStr s \<Rightarrow> and_then (py_int s) int64_range
      | _ \<Rightarrow> Inl TypeError)"

definition to_float64 :: "(string \<Rightarrow> 'f option) \<Rightarrow> (int \<Rightarrow> 'f) \<Rightarrow> pyobj \<Rightarrow> py_error + 'f" where
  "to_float64 float_of_str float_of_int v =
     (case v of
        PInt n \<Rightarrow> Inr (float_of_int n)
      | PStr s \<Rightarrow> (case float_of_str s of None \<Rightarrow> Inl ValueError | Some x \<Rightarrow> Inr x)
      | _ \<Rightarrow> Inl TypeError)"

record 'f episode_entry =
  ep_series_name :: string
  ep_series_rank :: int
  ep_series_origin_year :: int
  ep_series_link :: string
  ep_series_n_seasons :: int
  season :: int
  episode :: int
  episode_rating :: 'f
  episode_total_votes :: int
  episode_description :: string

text \<open>
  \<^verbatim>\<open>df.astype({...})\<close>: the columns are converted one after the other, in the order
  of the table's columns (which is the order of the dictionary), each over all rows; the
  first value that does not convert raises. The string columns hold strings already.
\<close>

definition astype ::
  "(string \<Rightarrow> 'f option) \<Rightarrow> (int \<Rightarrow> 'f) \<Rightarrow> raw_row list \<Rightarrow> py_error + 'f episode_entry list" where
  "astype float_of_str float_of_int df =
     and_then (traverse (\<lambda>r. to_int64 (PStr (raw_series_rank r))) df) (\<lambda>ranks.
     and_then (traverse (\<lambda>r. to_int64 (PStr (raw_series_origin_year r))) df) (\<lambda>years.
     and_then (traverse (\<lambda>r. to_int64 (PInt (raw_series_n_seasons r))) df) (\<lambda>n_seasons.
     and_then (traverse (\<lambda>r. to_int64 (PInt (raw_season r))) df) (\<lambda>season_nos.
     and_then (traverse (\<lambda>r. to_int64 (PStr (raw_episode r))) df) (\<lambda>episodes.
     and_then (traverse (\<lambda>r. to_float64 float_of_str float_of_int (raw_episode_rating r)) df)
       (\<lambda>ratings.
     and_then (traverse (\<lambda>r. to_int64 (raw_episode_total_votes r)) df) (\<lambda>votes.
       Inr (map (\<lambda>i.
              \<lparr>ep_series_name = raw_series_name (df ! i),
               ep_series_rank = ranks ! i,
               ep_series_origin_year = years ! i,
               ep_series_link = raw_series_link (df ! i),
               ep_series_n_seasons = n_seasons ! i,
               season = season_nos ! i,
               episode = episodes ! i,
               episode_rating = ratings ! i,
               episode_total_votes = votes ! i,
               episode_description = raw_episode_description (df ! i)\<rparr>)
            [0 ..< length df]))))))))"

text \<open>
  \<^verbatim>\<open>get_ratings\<close>. The array of the seasons is built by the library call
  \<^verbatim>\<open>np.arange(1, seasons+1)\<close>, after the line that announces the episodes and before
  the first pause. What that call returns belongs to the library and to the machine (the
  values of the range, an empty array, or an exception when the bounds are too large or
  the memory does not suffice), so it is the parameter \<open>np_arange\<close>, applied to the two
  bounds the source passes: the values of the array, or the exception.
\<close>

definition get_ratings ::
  "(string \<Rightarrow> 'f option) \<Rightarrow> (int \<Rightarrow> 'f) \<Rightarrow> (int \<Rightarrow> int \<Rightarrow> py_error + int list) \<Rightarrow> string
     \<Rightarrow> (string \<Rightarrow> py_error + soup) \<Rightarrow> world
     \<Rightarrow> (py_error + 'f episode_entry list) \<times> world" where
  "get_ratings float_of_str float_of_int np_arange name session w0 =
     (case try_series_link name w0 of
        (Inl e, w1) \<Rightarrow> (Inl e, w1)
      | (Inr link_var, w1) \<Rightarrow>
          (case get_last_season name session w1 of
             (Inl e, w2) \<Rightarrow> (Inl e, w2)
           | (Inr seasons, w2) \<Rightarrow>
               (case np_arange 1 (seasons + 1) of
                  Inl e \<Rightarrow> (Inl e, emit (Print GettingEpisodes) w2)
                | Inr season_nos \<Rightarrow>
                    (case seasons_loop name link_var seasons session season_nos []
                            (emit (Print GettingEpisodes) w2) of
                       (Inl e, w3) \<Rightarrow> (Inl e, w3)
                     | (Inr df, w3) \<Rightarrow>
                         (astype float_of_str float_of_int df,
                          emit (Print Banner)
                            (emit (Print (TotalEpisodes name (length df))) w3))))))"

section \<open>A run, block by block\<close>

text \<open>
  The vocabulary of the statements about a whole run. \<open>convert_row\<close> applies to one row
  the conversions \<open>astype\<close> applies to its columns; \<open>block_entry\<close> is the entry of the
  final table that one episode block yields, the row of the loop converted;
  \<open>season_blocks\<close> lists the blocks of the season pages in the order the two loops
  visit them, each with its season; \<open>lacks_optional b b'\<close> says that \<open>b'\<close> is the
  block \<open>b\<close> with some of its three optional nodes absent.
\<close>

definition convert_row ::
  "(string \<Rightarrow> 'f option) \<Rightarrow> (int \<Rightarrow> 'f) \<Rightarrow> raw_row \<Rightarrow> py_error + 'f episode_entry" where
  "convert_row float_of_str float_of_int r =
     and_then (to_int64 (PStr (raw_series_rank r))) (\<lambda>rank.
     and_then (to_int64 (PStr (raw_series_origin_year r))) (\<lambda>year.
     and_then (to_int64 (PInt (raw_series_n_seasons r))) (\<lambda>n_seasons.
     and_then (to_int64 (PInt (raw_season r))) (\<lambda>season_no.
     and_then (to_int64 (PStr (raw_episode r))) (\<lambda>number.
     and_then (to_float64 float_of_str float_of_int (raw_episode_rating r)) (\<lambda>rating.
     and_then (to_int64 (raw_episode_total_votes r)) (\<lambda>votes.
       Inr \<lparr>ep_series_name = raw_series_name r, ep_series_rank = rank,
            ep_series_origin_year = year, ep_series_link = raw_series_link r,
            ep_series_n_seasons = n_seasons, season = season_no, episode = number,
            episode_rating = rating, episode_total_votes = votes,
            episode_description = raw_episode_description r\<rparr>)))))))"

definition block_entry ::
  "(string \<Rightarrow> 'f option) \<Rightarrow> (int \<Rightarrow> 'f) \<Rightarrow> string \<Rightarrow> string \<Rightarrow> int \<Rightarrow> int \<Rightarrow> series_entry list
     \<Rightarrow> episode_block \<Rightarrow> py_error + 'f episode_entry" where
  "block_entry float_of_str float_of_int name link seasons season_no tbl blk =
     and_then (episode_row name link seasons season_no tbl blk)
       (convert_row float_of_str float_of_int)"

definition season_blocks :: "int list \<Rightarrow> soup list \<Rightarrow> (int \<times> episode_block) list" where
  "season_blocks season_nos pages =
     concat (map (\<lambda>(season_no, page). map (Pair season_no) (info_blocks page))
       (zip season_nos pages))"

definition lacks_optional :: "episode_block \<Rightarrow> episode_block \<Rightarrow> bool" where
  "lacks_optional b b' \<longleftrightarrow>
     episode_number b' = episode_number b \<and>
     (item_description b' = item_description b \<or> item_description b' = None) \<and>
     (rating_star b' = rating_star b \<or> rating_star b' = None) \<and>
     (total_votes_node b' = total_votes_node b \<or> total_votes_node b' = None)"

section \<open>Cutting a text at a character\<close>

text \<open>
  The vocabulary of the statements about the texts: the part of a text before the first
  occurrence of a character (the whole text when it does not occur), and the part after
  that occurrence (empty when it does not occur).
\<close>

definition before_first :: "char \<Rightarrow> string \<Rightarrow> string" where
  "before_first sep s = takeWhile (\<lambda>c. c \<noteq> sep) s"

definition after_first :: "char \<Rightarrow> string \<Rightarrow> string" where
  "after_first sep s = tl (dropWhile (\<lambda>c. c \<noteq> sep) s)"

section \<open>Example pages\<close>

text \<open>
  A top list of four rows, two of them with the same name, and the pages of a series
  with one season and of a series with eight.
\<close>

definition example_top_list :: "series_entry list" where
  "example_top_list =
     [\<lparr>series_name = ''Breaking Bad'', series_rank = ''1'', series_origin_year = ''2008'',
       series_link = ''/title/tt0903747/'', series_id = ''Breaking Bad (2008)''\<rparr>,
      \<lparr>series_name = ''Game of Thrones'', series_rank = ''12'', series_origin_year = ''2011'',
       series_link = ''/title/tt0944947/'', series_id = ''Game of Thrones (2011)''\<rparr>,
      \<lparr>series_name = ''House of Cards'', series_rank = ''70'', series_origin_year = ''1990'',
       series_link = ''/title/tt0098825/'', series_id = ''House of Cards (1990)''\<rparr>,
      \<lparr>series_name = ''House of Cards'', series_rank = ''90'', series_origin_year = ''2013'',
       series_link = ''/title/tt1856010/'', series_id = ''House of Cards (2013)''\<rparr>]"

definition example_world :: world where
  "example_world = \<lparr>top_list = example_top_list, console = []\<rparr>"

definition empty_page :: soup where
  "empty_page = \<lparr>title_cells = [], season_selector = None, info_blocks = []\<rparr>"

definition eight_seasons_page :: soup where
  "eight_seasons_page =
     \<lparr>title_cells = [],
      season_selector = Some \<lparr>tag_attrs = [''aria-label'' \<mapsto> ''8 seasons''], tag_text = []\<rparr>,
      info_blocks = []\<rparr>"

definition example_session :: "string \<Rightarrow> py_error + soup" where
  "example_session url =
     (if url = ''https://www.imdb.com/title/tt0903747/'' then Inr empty_page
      else if url = ''https://www.imdb.com/title/tt0944947/'' then Inr eight_seasons_page
      else Inl TransportError)"

text \<open>
  The chart page with the one row \<^verbatim>\<open>1. Breaking Bad (2008)\<close>, the same row with
  the white space the page puts around the rank, and a row whose title has a full stop.
\<close>

definition breaking_bad_anchor :: tag where
  "breaking_bad_anchor =
     \<lparr>tag_attrs = [''href'' \<mapsto> ''/title/tt0903747/''], tag_text = ''Breaking Bad''\<rparr>"

definition chart_page :: "string \<Rightarrow> soup" where
  "chart_page txt =
     \<lparr>title_cells = [\<lparr>cell_text = txt, cell_anchor = Some breaking_bad_anchor\<rparr>],
      season_selector = None, info_blocks = []\<rparr>"

definition chart_get :: "string \<Rightarrow> string \<Rightarrow> py_error + soup" where
  "chart_get txt url = (if url = top_url then Inr (chart_page txt) else Inl TransportError)"

definition breaking_bad_entry :: series_entry where
  "breaking_bad_entry =
     \<lparr>series_name = ''Breaking Bad'', series_rank = ''1'', series_origin_year = ''2008'',
      series_link = ''/title/tt0903747/'', series_id = ''Breaking Bad (2008)''\<rparr>"

text \<open>
  The pages of a series with one season: the detail page has no selector, and the page
  of season 1 holds the given episode blocks. The example blocks: one with every node,
  one with no optional node, one with no episode number, and one whose nodes hold
  unusual texts.
\<close>

definition text_node :: "string \<Rightarrow> tag" where
  "text_node txt = \<lparr>tag_attrs = Map.empty, tag_text = txt\<rparr>"

definition number_node :: "string \<Rightarrow> tag" where
  "number_node n = \<lparr>tag_attrs = [''itemprop'' \<mapsto> ''episodeNumber'', ''content'' \<mapsto> n], tag_text = []\<rparr>"

definition full_block :: episode_block where
  "full_block =
     \<lparr>item_description = Some (text_node '' A teacher turns to crime. ''),
      rating_star = Some (text_node ''8.4''),
      total_votes_node = Some (text_node ''(1,234)''),
      episode_number = Some (number_node ''3'')\<rparr>"

definition bare_block :: episode_block where
  "bare_block =
     \<lparr>item_description = None, rating_star = None, total_votes_node = None,
      episode_number = Some (number_node ''3'')\<rparr>"

definition unnumbered_block :: episode_block where
  "unnumbered_block =
     \<lparr>item_description = Some (text_node '' A teacher turns to crime. ''),
      rating_star = Some (text_node ''8.4''),
      total_votes_node = Some (text_node ''(1,234)''),
      episode_number = None\<rparr>"

definition odd_block :: episode_block where
  "odd_block =
     \<lparr>item_description = Some (text_node ''  ''),
      rating_star = Some (text_node ''12.5''),
      total_votes_node = Some (text_node ''(-5)''),
      episode_number = Some (number_node ''1'')\<rparr>"

definition season_page :: "episode_block list \<Rightarrow> soup" where
  "season_page blks = \<lparr>title_cells = [], season_selector = None, info_blocks = blks\<rparr>"

definition series_session :: "episode_block list \<Rightarrow> string \<Rightarrow> py_error + soup" where
  "series_session blks url =
     (if url = ''https://www.imdb.com/title/tt0903747/'' then Inr empty_page
      else if url = ''https://www.imdb.com/title/tt0903747/episodes?season=1''
      then Inr (season_page blks)
      else Inl TransportError)"

text \<open>
  Floats for the examples: the rationals, with the reading of the two numerals the
  examples use.
\<close>

definition example_float_of_str :: "string \<Rightarrow> rat option" where
  "example_float_of_str s =
     (if s = ''8.4'' then Some (42 / 5) else if s = ''12.5'' then Some (25 / 2) else None)"

definition example_float_of_int :: "int \<Rightarrow> rat" where
  "example_float_of_int n = of_int n"

text \<open>
  The range for the examples: the values from the first bound up to the one before the
  second, for a range of at most a thousand values.
\<close>

definition example_arange :: "int \<Rightarrow> int \<Rightarrow> py_error + int list" where
  "example_arange start stop =
     (if stop - start \<le> 1000 then Inr [start .. stop - 1] else Inl MemoryError)"

definition episode_of :: "rat \<Rightarrow> int \<Rightarrow> string \<Rightarrow> int \<Rightarrow> rat episode_entry" where
  "episode_of rating votes description number =
     \<lparr>ep_series_name = ''Breaking Bad'', ep_series_rank = 1, ep_series_origin_year = 2008,
      ep_series_link = ''/title/tt0903747/'', ep_series_n_seasons = 1, season = 1,
      episode = number, episode_rating = rating, episode_total_votes = votes,
      episode_description = description\<rparr>"

definition full_entry :: "rat episode_entry" where
  "full_entry = episode_of (42 / 5) 1234 ''A teacher turns to crime.'' 3"

definition odd_entry :: "rat episode_entry" where
  "odd_entry = episode_of (25 / 2) (- 5) [] 1"

definition bare_entry :: "rat episode_entry" where
  "bare_entry = episode_of (- 1) 0 ''N/A'' 3"

section \<open>Basic facts\<close>

lemma and_then_Inl [simp]: "and_then (Inl e) f = Inl e"
  by (simp add: and_then_def)

lemma and_then_Inr [simp]: "and_then (Inr x) f = f x"
  by (simp add: and_then_def)

lemma top_list_emit [simp]: "top_list (emit ev w) = top_list w"
  by (simp add: emit_def)

lemma console_emit [simp]: "console (emit ev w) = console w @ [ev]"
  by (simp add: emit_def)

subsection \<open>Splitting is cutting at the first separator\<close>

lemma split_scan_eq:
  "split_scan sep piece s =
     (rev piece @ takeWhile (\<lambda>c. c \<noteq> sep) s) #
     (if sep \<in> set s then split_scan sep [] (tl (dropWhile (\<lambda>c. c \<noteq> sep) s)) else [])"
  by (induction s arbitrary: piece) auto

lemma py_split_eq:
  "py_split sep s =
     takeWhile (\<lambda>c. c \<noteq> sep) s #
     (if sep \<in> set s then py_split sep (tl (dropWhile (\<lambda>c. c \<noteq> sep) s)) else [])"
  unfolding py_split_def by (subst split_scan_eq) simp

lemma hd_py_split: "hd (py_split sep s) = takeWhile (\<lambda>c. c \<noteq> sep) s"
  by (subst py_split_eq) simp

lemma py_split_second:
  "py_index (py_split sep s) (Suc 0) =
     (if sep \<in> set s
      then Inr (takeWhile (\<lambda>c. c \<noteq> sep) (tl (dropWhile (\<lambda>c. c \<noteq> sep) s)))
      else Inl IndexError)"
proof (cases "sep \<in> set s")
  case True
  let ?rest = "tl (dropWhile (\<lambda>c. c \<noteq> sep) s)"
  have "py_split sep s = takeWhile (\<lambda>c. c \<noteq> sep) s # py_split sep ?rest"
    using True by (subst py_split_eq) simp
  moreover have "py_split sep ?rest \<noteq> []"
    by (subst py_split_eq) simp
  ultimately show ?thesis
    using True hd_py_split [of sep ?rest]
    by (cases "py_split sep ?rest") (auto simp: py_index_def)
next
  case False
  then have "py_split sep s = [takeWhile (\<lambda>c. c \<noteq> sep) s]"
    by (subst py_split_eq) simp
  then show ?thesis using False by (simp add: py_index_def)
qed

subsection \<open>Reading back a decimal numeral\<close>

lemma digit_chars:
  "k < 10 \<Longrightarrow> is_digit (''0123456789'' ! k) \<and> digit_val (''0123456789'' ! k) = k"
proof -
  assume "k < 10"
  then have "k \<in> {0, 1, 2, 3, 4, 5, 6, 7, 8, 9}" by auto
  then show ?thesis by (auto simp: is_digit_def digit_val_def)
qed

lemma show_nat_not_Nil: "show_nat n \<noteq> []"
  by (subst show_nat.simps) simp

lemma show_nat_digits: "c \<in> set (show_nat n) \<Longrightarrow> is_digit c"
proof (induction n rule: show_nat.induct)
  case (1 n)
  show ?case
  proof (cases "n < 10")
    case True
    with "1.prems" digit_chars [of n] show ?thesis
      by (simp add: show_nat.simps [of n])
  next
    case False
    with "1.prems" have "c \<in> set (show_nat (n div 10)) \<or> c = ''0123456789'' ! (n mod 10)"
      by (auto simp: show_nat.simps [of n])
    then show ?thesis using "1.IH" False digit_chars [of "n mod 10"] by auto
  qed
qed

lemma is_digit_facts:
  "is_digit c \<Longrightarrow>
     \<not> is_int_space c \<and> c \<noteq> CHR ''_'' \<and> c \<noteq> CHR ''-'' \<and> c \<noteq> CHR ''+'' \<and> c \<noteq> CHR '' ''"
  by (auto simp: is_digit_def is_int_space_def)

lemma digits_ok_all: "s \<noteq> [] \<Longrightarrow> \<forall>c \<in> set s. is_digit c \<Longrightarrow> digits_ok s"
  by (induction s rule: digits_ok.induct) (auto dest: is_digit_facts)

lemma digits_value_snoc:
  "d \<noteq> CHR ''_'' \<Longrightarrow> digits_value (s @ [d]) = 10 * digits_value s + digit_val d"
  by (simp add: digits_value_def)

lemma digits_value_show_nat: "digits_value (show_nat n) = n"
proof (induction n rule: show_nat.induct)
  case (1 n)
  show ?case
  proof (cases "n < 10")
    case True
    then show ?thesis
      using digit_chars [of n] is_digit_facts [of "''0123456789'' ! n"]
      by (simp add: show_nat.simps [of n] digits_value_def)
  next
    case False
    have "''0123456789'' ! (n mod 10) \<noteq> CHR ''_''"
      using digit_chars [of "n mod 10"] is_digit_facts by fastforce
    then show ?thesis using False "1.IH" digit_chars [of "n mod 10"]
      by (simp add: show_nat.simps [of n] digits_value_snoc)
  qed
qed

lemma dropWhile_same: "s \<noteq> [] \<Longrightarrow> \<not> P (hd s) \<Longrightarrow> dropWhile P s = s"
  by (cases s) auto

lemma py_int_show_nat: "py_int (show_nat n) = Inr (int n)"
proof -
  let ?s = "show_nat n"
  have ne: "?s \<noteq> []" by (rule show_nat_not_Nil)
  have dig: "\<forall>c \<in> set ?s. is_digit c" using show_nat_digits by blast
  have h: "is_digit (hd ?s)" and l: "is_digit (last ?s)" using ne dig by auto
  have lead: "dropWhile is_int_space ?s = ?s"
    using ne h is_digit_facts by (intro dropWhile_same) auto
  have trail: "dropWhile is_int_space (rev ?s) = rev ?s"
    using ne l is_digit_facts by (intro dropWhile_same) (auto simp: hd_rev)
  have unsigned: "hd ?s \<noteq> CHR ''-''" "hd ?s \<noteq> CHR ''+''" using h is_digit_facts by auto
  show ?thesis
    using ne unsigned digits_ok_all [OF ne dig] digits_value_show_nat [of n]
    by (simp add: py_int_def lead trail)
qed

lemma takeWhile_show_nat:
  "takeWhile (\<lambda>c. c \<noteq> CHR '' '') (show_nat n @ CHR '' '' # rest) = show_nat n"
proof -
  have "\<forall>c \<in> set (show_nat n). c \<noteq> CHR '' ''"
    using show_nat_digits is_digit_facts by blast
  then show ?thesis by (simp add: takeWhile_append2)
qed

section \<open>The top list: what a row holds\<close>

lemmas top_list_eval =
  get_top_list_def chart_get_def chart_page_def breaking_bad_anchor_def parse_cell_def
  py_index_def py_split_def py_strip_def is_space_def py_replace_def py_getitem_def of_find_def
  add_series_id_def breaking_bad_entry_def

lemma py_replace_filter: "py_replace c [] s = filter (\<lambda>x. x \<noteq> c) s"
  by (induction s) (auto simp: py_replace_def)

lemma traverse_Inr:
  "traverse f xs = Inr ys \<Longrightarrow> list_all2 (\<lambda>x y. f x = Inr y) xs ys"
  by (induction xs arbitrary: ys) (auto split: sum.splits)

lemma top_list_loop_traverse:
  "top_list_loop cells acc = and_then (traverse parse_cell cells) (\<lambda>new. Inr (acc @ new))"
  by (induction cells arbitrary: acc) (auto split: sum.splits)

lemma get_top_list_Inr:
  assumes "get_top_list requests_get = Inr rows" and "requests_get top_url = Inr page"
  shows "\<exists>rows0. list_all2 (\<lambda>ser row. parse_cell ser = Inr row) (title_cells page) rows0 \<and>
           rows = map add_series_id rows0"
  using assms
  by (auto simp: get_top_list_def top_list_loop_traverse and_then_def split: sum.splits dest: traverse_Inr)

lemma parse_cell_Inr:
  assumes "parse_cell ser = Inr row"
  shows "series_rank row = py_strip (before_first CHR ''.'' (cell_text ser))"
    and "series_name row =
           py_strip (before_first CHR ''('' (before_first CHR ''.'' (after_first CHR ''.'' (cell_text ser))))"
    and "series_origin_year row =
           py_strip (filter (\<lambda>c. c \<noteq> CHR '')'') (before_first CHR ''('' (after_first CHR ''('' (cell_text ser))))"
    and "\<exists>a. cell_anchor ser = Some a \<and> tag_attrs a ''href'' = Some (series_link row)"
  using assms
  by (auto simp: parse_cell_def py_split_second hd_py_split py_replace_filter before_first_def
      after_first_def py_getitem_def of_find_def and_then_def Let_def
      split: if_splits option.splits sum.splits pyobj.splits)







text \<open>
  A title with a full stop is cut at it: the title is taken from the second piece of
  the split at full stops only.
\<close>

lemma title_with_full_stop:
  "parse_cell \<lparr>cell_text = ''75. Mr. Robot (2015)'',
       cell_anchor = Some \<lparr>tag_attrs = [''href'' \<mapsto> ''/title/tt4158110/''], tag_text = ''Mr. Robot''\<rparr>\<rparr> =
     Inr \<lparr>series_name = ''Mr'', series_rank = ''75'', series_origin_year = ''2015'',
          series_link = ''/title/tt4158110/''\<rparr>"
  by (simp add: top_list_eval)

text \<open>
  C5. In the table \<open>get_top_list\<close> returns, every row's \<open>series_id\<close> is its name, a
  blank and an opening parenthesis, its origin year and a closing parenthesis; the
  column is added to the rows of the table the loop has finished.
\<close>

theorem series_id_concat:
  assumes "get_top_list requests_get = Inr rows"
  shows "(\<exists>page rows0. requests_get top_url = Inr page \<and>
            top_list_loop (title_cells page) [] = Inr rows0 \<and> rows = map add_series_id rows0) \<and>
         (\<forall>r \<in> set rows. series_id r = series_name r @ '' ('' @ series_origin_year r @ '')'')"
  using assms
  by (auto simp: get_top_list_def and_then_def add_series_id_def split: sum.splits)

theorem series_id_concat_witness:
  "get_top_list (chart_get ''1. Breaking Bad (2008)'') = Inr [breaking_bad_entry] \<and>
   series_id breaking_bad_entry = ''Breaking Bad'' @ '' ('' @ ''2008'' @ '')''"
proof -
  have run: "get_top_list (chart_get ''1. Breaking Bad (2008)'') = Inr [breaking_bad_entry]"
    by (simp add: top_list_eval)
  from series_id_concat [OF run] show ?thesis
    using run by (simp add: breaking_bad_entry_def)
qed




section \<open>The season count\<close>

lemma try_series_link_found:
  "lookup_item series_link name (top_list w) = Inr link \<Longrightarrow>
     try_series_link name w = (Inr (Some link), w)"
  by (simp add: try_series_link_def)

lemma lookup_item_error:
  "lookup_item col name tbl = Inl e \<Longrightarrow> e = ValueError"
  by (auto simp: lookup_item_def split: list.splits)

lemma try_series_link_missing:
  "lookup_item series_link name (top_list w) = Inl e \<Longrightarrow>
     try_series_link name w = (Inr None, emit (Print (NotUnique name)) w)"
  by (frule lookup_item_error) (simp add: try_series_link_def)

text \<open>
  C1. When the detail page of the series was fetched (the name selects one row of the
  top list and the session answers), \<open>get_last_season\<close> returns 1 on a page with no
  season selector; on a page with one it returns what \<^verbatim>\<open>int\<close> reads from the label
  up to its first blank, so a label that starts with the decimal numeral of \<open>n\<close> and
  a blank yields \<open>n\<close>.
\<close>

theorem get_last_season_count:
  assumes "lookup_item series_link name (top_list w) = Inr link"
    and "session (base_url @ link) = Inr page"
  shows "(season_selector page = None \<longrightarrow> fst (get_last_season name session w) = Inr 1) \<and>
    (\<forall>sel label. season_selector page = Some sel \<and> tag_attrs sel ''aria-label'' = Some label \<longrightarrow>
       fst (get_last_season name session w) = py_int (takeWhile (\<lambda>c. c \<noteq> CHR '' '') label)) \<and>
    (\<forall>sel n rest. season_selector page = Some sel \<and>
         tag_attrs sel ''aria-label'' = Some (show_nat n @ CHR '' '' # rest) \<longrightarrow>
       fst (get_last_season name session w) = Inr (int n))"
proof -
  let ?w1 = "emit Sleep (emit (Print (Scraping name)) (emit (Print Banner) w))"
  have row: "lookup_item series_link name (top_list ?w1) = Inr link"
    using assms(1) by simp
  note found = try_series_link_found [OF row]
  have none: "season_selector page = None \<longrightarrow> fst (get_last_season name session w) = Inr 1"
    using assms(2) by (simp add: get_last_season_def found)
  have some: "fst (get_last_season name session w) = py_int (takeWhile (\<lambda>c. c \<noteq> CHR '' '') label)"
    if "season_selector page = Some sel" "tag_attrs sel ''aria-label'' = Some label"
    for sel label
    using assms(2) that
    by (simp add: get_last_season_def found py_getitem_def hd_py_split Let_def split: sum.splits)
  have num: "fst (get_last_season name session w) = Inr (int n)"
    if "season_selector page = Some sel"
      "tag_attrs sel ''aria-label'' = Some (show_nat n @ CHR '' '' # rest)"
    for sel n rest
    using some [OF that] by (simp add: takeWhile_show_nat py_int_show_nat)
  from none some num show ?thesis by blast
qed

theorem get_last_season_count_witness:
  "fst (get_last_season ''Breaking Bad'' example_session example_world) = Inr 1 \<and>
   fst (get_last_season ''Game of Thrones'' example_session example_world) = Inr 8"
proof -
  have bb: "lookup_item series_link ''Breaking Bad'' (top_list example_world) = Inr ''/title/tt0903747/''"
    by (simp add: lookup_item_def example_world_def example_top_list_def)
  have bb_page: "example_session (base_url @ ''/title/tt0903747/'') = Inr empty_page"
    by (simp add: example_session_def base_url_def)
  have got: "lookup_item series_link ''Game of Thrones'' (top_list example_world) = Inr ''/title/tt0944947/''"
    by (simp add: lookup_item_def example_world_def example_top_list_def)
  have got_page: "example_session (base_url @ ''/title/tt0944947/'') = Inr eight_seasons_page"
    by (simp add: example_session_def base_url_def)
  have eight: "py_int (takeWhile (\<lambda>c. c \<noteq> CHR '' '') ''8 seasons'') = Inr 8"
    by (simp add: py_int_def is_int_space_def is_digit_def digits_value_def digit_val_def)
  show ?thesis
    using get_last_season_count [where session = example_session and page = empty_page, OF bb bb_page]
      get_last_season_count [where session = example_session and page = eight_seasons_page,
        OF got got_page] eight
    by (simp add: empty_page_def eight_seasons_page_def)
qed

section \<open>The collector: the state and the rows\<close>

lemma lookup_item_cases:
  "(\<exists>r. filter (\<lambda>r. series_name r = name) tbl = [r] \<and> lookup_item col name tbl = Inr (col r)) \<or>
   (length (filter (\<lambda>r. series_name r = name) tbl) \<noteq> 1 \<and> lookup_item col name tbl = Inl ValueError)"
  by (cases "filter (\<lambda>r. series_name r = name) tbl" rule: list.exhaust; simp add: lookup_item_def split: list.splits)

lemma lookup_item_other_column:
  "lookup_item col name tbl = Inr v \<Longrightarrow> \<exists>v'. lookup_item col' name tbl = Inr v'"
  by (auto simp: lookup_item_def split: list.splits)

lemma try_series_link_not_unique:
  assumes "length (filter (\<lambda>r. series_name r = name) (top_list w)) \<noteq> 1"
  shows "try_series_link name w = (Inr None, emit (Print (NotUnique name)) w)"
  using assms lookup_item_cases [of name "top_list w" series_link]
  by (auto simp: try_series_link_def)

lemma get_last_season_not_unique:
  assumes "length (filter (\<lambda>r. series_name r = name) (top_list w)) \<noteq> 1"
  shows "get_last_season name session w =
     (Inl UnboundLocalError,
      emit (Print (NotUnique name)) (emit Sleep (emit (Print (Scraping name)) (emit (Print Banner) w))))"
proof -
  let ?w1 = "emit Sleep (emit (Print (Scraping name)) (emit (Print Banner) w))"
  have "length (filter (\<lambda>r. series_name r = name) (top_list ?w1)) \<noteq> 1"
    using assms by simp
  from try_series_link_not_unique [OF this] show ?thesis
    by (simp add: get_last_season_def)
qed

lemma try_series_link_frame: "top_list (snd (try_series_link name w)) = top_list w"
  by (simp add: try_series_link_def split: sum.splits)

lemma get_last_season_frame: "top_list (snd (get_last_season name session w)) = top_list w"
proof (cases "lookup_item series_link name (top_list w)")
  case (Inl e)
  let ?w1 = "emit Sleep (emit (Print (Scraping name)) (emit (Print Banner) w))"
  have "lookup_item series_link name (top_list ?w1) = Inl e" using Inl by simp
  from try_series_link_missing [OF this] show ?thesis
    by (simp add: get_last_season_def)
next
  case (Inr link)
  let ?w1 = "emit Sleep (emit (Print (Scraping name)) (emit (Print Banner) w))"
  have "lookup_item series_link name (top_list ?w1) = Inr link" using Inr by simp
  from try_series_link_found [OF this] show ?thesis
    by (simp add: get_last_season_def Let_def split: sum.splits option.splits)
qed

lemma seasons_loop_frame:
  "top_list (snd (seasons_loop name link_var seasons session ss df w)) = top_list w"
  by (induction ss arbitrary: df w) (auto simp: Let_def split: option.splits sum.splits)

lemma get_ratings_frame:
  "top_list (snd (get_ratings float_of_str float_of_int np_arange name session w)) = top_list w"
proof -
  obtain r1 w1 where t: "try_series_link name w = (r1, w1)" by (cases "try_series_link name w")
  then have w1: "top_list w1 = top_list w" using try_series_link_frame [of name w] by simp
  obtain r2 w2 where g: "get_last_season name session w1 = (r2, w2)"
    by (cases "get_last_season name session w1")
  then have w2: "top_list w2 = top_list w" using get_last_season_frame [of name session w1] w1 by simp
  show ?thesis
  proof (cases r1)
    case (Inl e)
    then show ?thesis using t w1 by (simp add: get_ratings_def)
  next
    case r1: (Inr link_var)
    show ?thesis
    proof (cases r2)
      case (Inl e)
      then show ?thesis using t g r1 w2 by (simp add: get_ratings_def)
    next
      case r2: (Inr seasons)
      show ?thesis
      proof (cases "np_arange 1 (seasons + 1)")
        case (Inl e)
        then show ?thesis using t g r1 r2 w2 by (simp add: get_ratings_def)
      next
        case ar: (Inr season_nos)
        obtain r3 w3 where l: "seasons_loop name link_var seasons session season_nos []
                         (emit (Print GettingEpisodes) w2) = (r3, w3)"
          by (cases "seasons_loop name link_var seasons session season_nos []
                         (emit (Print GettingEpisodes) w2)")
        then have "top_list w3 = top_list w"
          using seasons_loop_frame [of name link_var seasons session season_nos "[]"
              "emit (Print GettingEpisodes) w2"] w2
          by simp
        then show ?thesis using t g r1 r2 ar l by (cases r3) (simp_all add: get_ratings_def)
      qed
    qed
  qed
qed


lemma list_all2_in_right: "list_all2 P xs ys \<Longrightarrow> y \<in> set ys \<Longrightarrow> \<exists>x \<in> set xs. P x y"
  by (induction rule: list_all2_induct) auto

lemma episodes_loop_traverse:
  "episodes_loop name link seasons season_no tbl blks df =
     and_then (traverse (episode_row name link seasons season_no tbl) blks) (\<lambda>new. Inr (df @ new))"
  by (induction blks arbitrary: df) (auto split: sum.splits)

lemma episodes_loop_rows:
  assumes "episodes_loop name link seasons season_no tbl blks df = Inr df'"
  shows "\<exists>new. df' = df @ new \<and>
           list_all2 (\<lambda>blk row. episode_row name link seasons season_no tbl blk = Inr row) blks new"
  using assms
  by (auto simp: episodes_loop_traverse and_then_def split: sum.splits dest: traverse_Inr)

lemma get_description_eq:
  "get_description node = Inr (case node of None \<Rightarrow> ''N/A'' | Some t \<Rightarrow> py_strip (tag_text t))"
  by (simp add: get_description_def try_except_def py_text_def of_find_def split: option.splits)

lemma get_rating_eq:
  "get_rating node = Inr (case node of None \<Rightarrow> PInt (- 1) | Some t \<Rightarrow> PStr (tag_text t))"
  by (simp add: get_rating_def try_except_def py_text_def of_find_def split: option.splits)

lemma get_total_votes_eq:
  "get_total_votes node =
     Inr (case node of None \<Rightarrow> PInt 0
          | Some t \<Rightarrow> PStr (filter (\<lambda>c. c \<noteq> CHR ''('' \<and> c \<noteq> CHR '')'' \<and> c \<noteq> CHR '','') (tag_text t)))"
  by (auto simp: get_total_votes_def try_except_def py_text_def of_find_def py_replace_filter
      split: option.splits intro: filter_cong)

lemma get_number_eq: "get_number node = Inr (of_find node)"
  by (simp add: get_number_def try_except_def)

lemma episode_row_eq:
  "episode_row name link seasons season_no tbl blk =
     and_then (lookup_item series_rank name tbl) (\<lambda>rank.
     and_then (lookup_item series_origin_year name tbl) (\<lambda>year.
     and_then (py_getitem (of_find (episode_number blk)) ''content'') (\<lambda>content.
       Inr \<lparr>raw_series_name = name, raw_series_rank = rank,
            raw_series_origin_year = year, raw_series_link = link,
            raw_series_n_seasons = seasons, raw_season = season_no,
            raw_episode = content,
            raw_episode_rating =
              (case rating_star blk of None \<Rightarrow> PInt (- 1) | Some t \<Rightarrow> PStr (tag_text t)),
            raw_episode_total_votes =
              (case total_votes_node blk of None \<Rightarrow> PInt 0
               | Some t \<Rightarrow> PStr (filter (\<lambda>c. c \<noteq> CHR ''('' \<and> c \<noteq> CHR '')'' \<and> c \<noteq> CHR '','') (tag_text t))),
            raw_episode_description =
              (case item_description blk of None \<Rightarrow> ''N/A'' | Some t \<Rightarrow> py_strip (tag_text t))\<rparr>)))"
  by (simp add: episode_row_def get_description_eq get_rating_eq get_total_votes_eq get_number_eq)

lemma seasons_loop_rows:
  assumes "seasons_loop name link_var seasons session ss df w = (Inr df', w')"
  shows "\<forall>row \<in> set df'. row \<in> set df \<or>
     (\<exists>link season_no page blk. link_var = Some link \<and> season_no \<in> set ss \<and>
        session (season_url link season_no) = Inr page \<and> blk \<in> set (info_blocks page) \<and>
        episode_row name link seasons season_no (top_list w) blk = Inr row)"
  using assms
proof (induction ss arbitrary: df w)
  case Nil
  then show ?case by simp
next
  case (Cons season_no rest)
  from Cons.prems obtain link page df1 where
    link: "link_var = Some link"
    and page: "session (season_url link season_no) = Inr page"
    and body: "episodes_loop name link seasons season_no (top_list w) (info_blocks page) df = Inr df1"
    and rest: "seasons_loop name link_var seasons session rest df1
         (emit (Print (SeasonScraped season_no)) (emit (Get (season_url link season_no)) (emit Sleep w)))
         = (Inr df', w')"
    by (auto simp: Let_def split: option.splits sum.splits)
  from episodes_loop_rows [OF body] obtain new where
    df1: "df1 = df @ new"
    and new: "list_all2 (\<lambda>blk row. episode_row name link seasons season_no (top_list w) blk = Inr row)
                (info_blocks page) new"
    by blast
  show ?case
  proof
    fix row assume "row \<in> set df'"
    with Cons.IH [OF rest] have "row \<in> set df1 \<or>
        (\<exists>link season_no page blk. link_var = Some link \<and> season_no \<in> set rest \<and>
          session (season_url link season_no) = Inr page \<and> blk \<in> set (info_blocks page) \<and>
          episode_row name link seasons season_no (top_list w) blk = Inr row)"
      by simp
    then consider "row \<in> set df1"
      | "\<exists>link season_no page blk. link_var = Some link \<and> season_no \<in> set rest \<and>
          session (season_url link season_no) = Inr page \<and> blk \<in> set (info_blocks page) \<and>
          episode_row name link seasons season_no (top_list w) blk = Inr row"
      by blast
    then show "row \<in> set df \<or>
     (\<exists>link season_no' page blk. link_var = Some link \<and> season_no' \<in> set (season_no # rest) \<and>
        session (season_url link season_no') = Inr page \<and> blk \<in> set (info_blocks page) \<and>
        episode_row name link seasons season_no' (top_list w) blk = Inr row)"
    proof cases
      case 1
      then have "row \<in> set df \<or> row \<in> set new" using df1 by auto
      then show ?thesis
      proof
        assume "row \<in> set new"
        then obtain blk where "blk \<in> set (info_blocks page)"
          "episode_row name link seasons season_no (top_list w) blk = Inr row"
          using list_all2_in_right [OF new] by blast
        then show ?thesis using link page by auto
      qed simp
    next
      case 2
      then show ?thesis by auto
    qed
  qed
qed


lemma traverse_nth:
  assumes "traverse f xs = Inr ys"
  shows "length ys = length xs" and "i < length xs \<Longrightarrow> f (xs ! i) = Inr (ys ! i)"
  using traverse_Inr [OF assms] by (auto simp: list_all2_conv_all_nth)

lemma astype_Inr:
  assumes "astype float_of_str float_of_int df = Inr rows"
  shows "list_all2 (\<lambda>raw row.
      ep_series_name row = raw_series_name raw \<and>
      to_int64 (PStr (raw_series_rank raw)) = Inr (ep_series_rank row) \<and>
      to_int64 (PStr (raw_series_origin_year raw)) = Inr (ep_series_origin_year row) \<and>
      ep_series_link row = raw_series_link raw \<and>
      to_int64 (PInt (raw_series_n_seasons raw)) = Inr (ep_series_n_seasons row) \<and>
      to_int64 (PInt (raw_season raw)) = Inr (season row) \<and>
      to_int64 (PStr (raw_episode raw)) = Inr (episode row) \<and>
      to_float64 float_of_str float_of_int (raw_episode_rating raw) = Inr (episode_rating row) \<and>
      to_int64 (raw_episode_total_votes raw) = Inr (episode_total_votes row) \<and>
      episode_description row = raw_episode_description raw) df rows"
proof -
  from assms obtain ranks years n_seasons season_nos episodes ratings votes where
    cols: "traverse (\<lambda>r. to_int64 (PStr (raw_series_rank r))) df = Inr ranks"
      "traverse (\<lambda>r. to_int64 (PStr (raw_series_origin_year r))) df = Inr years"
      "traverse (\<lambda>r. to_int64 (PInt (raw_series_n_seasons r))) df = Inr n_seasons"
      "traverse (\<lambda>r. to_int64 (PInt (raw_season r))) df = Inr season_nos"
      "traverse (\<lambda>r. to_int64 (PStr (raw_episode r))) df = Inr episodes"
      "traverse (\<lambda>r. to_float64 float_of_str float_of_int (raw_episode_rating r)) df = Inr ratings"
      "traverse (\<lambda>r. to_int64 (raw_episode_total_votes r)) df = Inr votes"
    and rows: "rows = map (\<lambda>i.
              \<lparr>ep_series_name = raw_series_name (df ! i),
               ep_series_rank = ranks ! i,
               ep_series_origin_year = years ! i,
               ep_series_link = raw_series_link (df ! i),
               ep_series_n_seasons = n_seasons ! i,
               season = season_nos ! i,
               episode = episodes ! i,
               episode_rating = ratings ! i,
               episode_total_votes = votes ! i,
               episode_description = raw_episode_description (df ! i)\<rparr>)
            [0 ..< length df]"
    unfolding astype_def and_then_def by (auto split: sum.splits)
  show ?thesis
    unfolding rows list_all2_conv_all_nth
    using cols [THEN traverse_nth(2)] by simp
qed

lemma get_ratings_not_unique:
  assumes "length (filter (\<lambda>r. series_name r = name) (top_list w)) \<noteq> 1"
  shows "get_ratings float_of_str float_of_int np_arange name session w =
     (Inl UnboundLocalError,
      emit (Print (NotUnique name)) (emit Sleep (emit (Print (Scraping name)) (emit (Print Banner)
        (emit (Print (NotUnique name)) w)))))"
proof -
  have "length (filter (\<lambda>r. series_name r = name) (top_list (emit (Print (NotUnique name)) w))) \<noteq> 1"
    using assms by simp
  from get_last_season_not_unique [OF this] try_series_link_not_unique [OF assms]
  show ?thesis by (simp add: get_ratings_def)
qed

text \<open>
  What the array of the seasons decides: when it is empty the run returns the empty
  table after the two closing lines and without a season request; when the library
  call raises, the run ends with that error before the first pause.
\<close>

lemma empty_range_empty_table:
  assumes "lookup_item series_link name (top_list w) = Inr link"
    and "get_last_season name session w = (Inr seasons, w2)"
    and "np_arange 1 (seasons + 1) = Inr []"
  shows "get_ratings float_of_str float_of_int np_arange name session w =
     (Inr [],
      emit (Print Banner) (emit (Print (TotalEpisodes name 0)) (emit (Print GettingEpisodes) w2)))"
  using assms
  by (simp add: get_ratings_def try_series_link_found astype_def)

lemma range_error_ends_run:
  assumes "lookup_item series_link name (top_list w) = Inr link"
    and "get_last_season name session w = (Inr seasons, w2)"
    and "np_arange 1 (seasons + 1) = Inl e"
  shows "get_ratings float_of_str float_of_int np_arange name session w =
     (Inl e, emit (Print GettingEpisodes) w2)"
  using assms
  by (simp add: get_ratings_def try_series_link_found)

lemma get_ratings_Inr:
  assumes "get_ratings float_of_str float_of_int np_arange name session w = (Inr rows, w')"
  shows "\<exists>link seasons season_nos df.
     lookup_item series_link name (top_list w) = Inr link \<and>
     fst (get_last_season name session w) = Inr seasons \<and>
     np_arange 1 (seasons + 1) = Inr season_nos \<and>
     astype float_of_str float_of_int df = Inr rows \<and>
     (\<forall>raw \<in> set df. \<exists>season_no page blk. season_no \<in> set season_nos \<and>
        session (season_url link season_no) = Inr page \<and> blk \<in> set (info_blocks page) \<and>
        episode_row name link seasons season_no (top_list w) blk = Inr raw)"
proof (cases "lookup_item series_link name (top_list w)")
  case (Inl e)
  then have "length (filter (\<lambda>r. series_name r = name) (top_list w)) \<noteq> 1"
    using lookup_item_cases [of name "top_list w" series_link] by auto
  from get_ratings_not_unique [OF this, of float_of_str float_of_int np_arange session] assms
  show ?thesis by simp
next
  case (Inr link)
  note found = try_series_link_found [OF Inr]
  from assms found obtain seasons w2 season_nos df w3 where
    seasons: "get_last_season name session w = (Inr seasons, w2)"
    and range: "np_arange 1 (seasons + 1) = Inr season_nos"
    and loop: "seasons_loop name (Some link) seasons session season_nos []
                  (emit (Print GettingEpisodes) w2) = (Inr df, w3)"
    and rows: "astype float_of_str float_of_int df = Inr rows"
    by (auto simp: get_ratings_def split: prod.splits sum.splits)
  have w2: "top_list w2 = top_list w"
    using get_last_season_frame [of name session w] seasons by simp
  from seasons_loop_rows [OF loop] w2 have
    "\<forall>raw \<in> set df. \<exists>season_no page blk. season_no \<in> set season_nos \<and>
        session (season_url link season_no) = Inr page \<and> blk \<in> set (info_blocks page) \<and>
        episode_row name link seasons season_no (top_list w) blk = Inr raw"
    by simp
  with Inr seasons range rows show ?thesis by auto
qed

lemmas collector_eval =
  get_ratings_def get_last_season_def try_series_link_def lookup_item_def
  example_world_def example_top_list_def series_session_def season_page_def empty_page_def
  base_url_def season_url_def show_int_def show_nat.simps
  episode_row_eq py_getitem_def of_find_def
  astype_def to_int64_def to_float64_def int64_range_def
  py_int_def is_int_space_def is_digit_def digits_value_def digit_val_def
  py_strip_def is_space_def
  text_node_def number_node_def
  example_float_of_str_def example_float_of_int_def example_arange_def episode_of_def emit_def

text \<open>
  C10. Neither \<open>get_last_season\<close> nor \<open>get_ratings\<close> changes the table the argument
  \<^verbatim>\<open>top_list\<close> refers to: whatever the session answers and however the call ends,
  the table of the final state is the table of the initial state.
\<close>

theorem top_list_unchanged:
  "top_list (snd (get_last_season name session w)) = top_list w \<and>
   top_list (snd (get_ratings float_of_str float_of_int np_arange name session w)) = top_list w"
  by (simp add: get_last_season_frame get_ratings_frame)

text \<open>
  C6. The link is looked up by equality of the name. When the name selects no row or
  more than one, the lookup raises \<open>ValueError\<close>; the handler prints the message and the
  call goes on to the statement that uses \<^verbatim>\<open>series_link\<close>, which was never bound, so
  the call ends with \<open>UnboundLocalError\<close> raised there, not with an error of the lookup,
  and before any request. \<open>get_ratings\<close> prints the message, then ends the same way inside
  its call of \<open>get_last_season\<close>.
\<close>

theorem ambiguous_name_continues:
  assumes "length (filter (\<lambda>r. series_name r = name) (top_list w)) \<noteq> 1"
  shows "lookup_item series_link name (top_list w) = Inl ValueError \<and>
    get_last_season name session w =
      (Inl UnboundLocalError,
       w\<lparr>console := console w @
           [Print Banner, Print (Scraping name), Sleep, Print (NotUnique name)]\<rparr>) \<and>
    get_ratings float_of_str float_of_int np_arange name session w =
      (Inl UnboundLocalError,
       w\<lparr>console := console w @
           [Print (NotUnique name), Print Banner, Print (Scraping name), Sleep,
            Print (NotUnique name)]\<rparr>)"
  using assms lookup_item_cases [of name "top_list w" series_link]
  by (auto simp: get_last_season_not_unique get_ratings_not_unique emit_def)

theorem ambiguous_name_continues_witness:
  "length (filter (\<lambda>r. series_name r = ''House of Cards'') (top_list example_world)) = 2 \<and>
   get_last_season ''House of Cards'' example_session example_world =
     (Inl UnboundLocalError,
      example_world\<lparr>console :=
        [Print Banner, Print (Scraping ''House of Cards''), Sleep,
         Print (NotUnique ''House of Cards'')]\<rparr>) \<and>
   length (filter (\<lambda>r. series_name r = ''Lost'') (top_list example_world)) = 0 \<and>
   fst (get_ratings example_float_of_str example_float_of_int example_arange ''Lost'' example_session
          example_world) = Inl UnboundLocalError"
proof -
  have two: "length (filter (\<lambda>r. series_name r = ''House of Cards'') (top_list example_world)) = 2"
    by (simp add: example_world_def example_top_list_def)
  have none: "length (filter (\<lambda>r. series_name r = ''Lost'') (top_list example_world)) = 0"
    by (simp add: example_world_def example_top_list_def)
  have "length (filter (\<lambda>r. series_name r = ''House of Cards'') (top_list example_world)) \<noteq> 1"
    using two by simp
  note hoc = ambiguous_name_continues [OF this,
      of example_session example_float_of_str example_float_of_int example_arange]
  have "length (filter (\<lambda>r. series_name r = ''Lost'') (top_list example_world)) \<noteq> 1"
    using none by simp
  note lost = ambiguous_name_continues [OF this,
      of example_session example_float_of_str example_float_of_int example_arange]
  have "console example_world = []" by (simp add: example_world_def)
  with hoc lost two none show ?thesis by simp
qed

lemma seasons_loop_all_blocks:
  assumes "seasons_loop name (Some link) seasons session ss df w = (Inr df', w')"
    and "season_no \<in> set ss"
  shows "\<exists>page. session (season_url link season_no) = Inr page \<and>
     (\<forall>blk \<in> set (info_blocks page).
        \<exists>row. episode_row name link seasons season_no (top_list w) blk = Inr row)"
  using assms
proof (induction ss arbitrary: df w)
  case Nil
  then show ?case by simp
next
  case (Cons s rest)
  from Cons.prems(1) obtain page df1 where
    page: "session (season_url link s) = Inr page"
    and body: "episodes_loop name link seasons s (top_list w) (info_blocks page) df = Inr df1"
    and rest: "seasons_loop name (Some link) seasons session rest df1
         (emit (Print (SeasonScraped s)) (emit (Get (season_url link s)) (emit Sleep w)))
         = (Inr df', w')"
    by (auto simp: Let_def split: sum.splits)
  show ?case
  proof (cases "season_no = s")
    case True
    from episodes_loop_rows [OF body] obtain new where
      "list_all2 (\<lambda>blk row. episode_row name link seasons s (top_list w) blk = Inr row)
         (info_blocks page) new"
      by blast
    then have "\<forall>blk \<in> set (info_blocks page).
        \<exists>row. episode_row name link seasons s (top_list w) blk = Inr row"
      by (auto simp: list_all2_conv_all_nth in_set_conv_nth)
    with page True show ?thesis by blast
  next
    case False
    with Cons.prems(2) have "season_no \<in> set rest" by simp
    from Cons.IH [OF rest this] show ?thesis by simp
  qed
qed

lemma get_ratings_all_blocks:
  assumes "get_ratings float_of_str float_of_int np_arange name session w = (Inr rows, w')"
    and "lookup_item series_link name (top_list w) = Inr link"
    and "fst (get_last_season name session w) = Inr seasons"
    and "np_arange 1 (seasons + 1) = Inr season_nos" "season_no \<in> set season_nos"
  shows "\<exists>page. session (season_url link season_no) = Inr page \<and>
     (\<forall>blk \<in> set (info_blocks page).
        \<exists>row. episode_row name link seasons season_no (top_list w) blk = Inr row)"
proof -
  note found = try_series_link_found [OF assms(2)]
  from assms(1,3,4) found obtain w2 df w3 where
    seasons: "get_last_season name session w = (Inr seasons, w2)"
    and loop: "seasons_loop name (Some link) seasons session season_nos []
                  (emit (Print GettingEpisodes) w2) = (Inr df, w3)"
    by (auto simp: get_ratings_def split: prod.splits sum.splits)
  have w2: "top_list w2 = top_list w"
    using get_last_season_frame [of name session w] seasons by simp
  from seasons_loop_all_blocks [OF loop assms(5)] w2 show ?thesis by simp
qed

text \<open>
  C3. On an episode block with no episode-number node the lookup returns \<^verbatim>\<open>None\<close>
  without raising, so the handler and its \<open>-1\<close> are not reached; the row then
  subscripts \<^verbatim>\<open>None\<close>, which raises \<open>TypeError\<close>. A run returns no table when
  such a block stands in the page of a season of the array the run iterates over.
\<close>

theorem missing_episode_number_aborts:
  assumes "episode_number blk = None"
  shows "get_number (episode_number blk) = Inr PNone \<and>
    (length (filter (\<lambda>r. series_name r = name) tbl) = 1 \<longrightarrow>
       episode_row name link seasons season_no tbl blk = Inl TypeError) \<and>
    (lookup_item series_link name (top_list w) = Inr link \<and>
     fst (get_last_season name session w) = Inr seasons \<and>
     np_arange 1 (seasons + 1) = Inr season_nos \<and> season_no \<in> set season_nos \<and>
     session (season_url link season_no) = Inr page \<and> blk \<in> set (info_blocks page) \<longrightarrow>
       (\<exists>e. fst (get_ratings float_of_str float_of_int np_arange name session w) = Inl e))"
proof -
  have number: "get_number (episode_number blk) = Inr PNone"
    using assms by (simp add: get_number_eq of_find_def)
  have row: "episode_row name link seasons season_no tbl blk = Inl TypeError"
    if "length (filter (\<lambda>r. series_name r = name) tbl) = 1" for tbl name link seasons season_no
    using that assms lookup_item_cases [of name tbl series_rank]
      lookup_item_cases [of name tbl series_origin_year]
    by (auto simp: episode_row_eq py_getitem_def of_find_def)
  have no_row: "\<exists>e. episode_row name link seasons season_no tbl blk = Inl e"
    for tbl name link seasons season_no
    using assms
    by (cases "lookup_item series_rank name tbl"; cases "lookup_item series_origin_year name tbl")
       (simp_all add: episode_row_eq py_getitem_def of_find_def)
  have run: "\<exists>e. fst (get_ratings float_of_str float_of_int np_arange name session w) = Inl e"
    if "lookup_item series_link name (top_list w) = Inr link"
      "fst (get_last_season name session w) = Inr seasons"
      "np_arange 1 (seasons + 1) = Inr season_nos" "season_no \<in> set season_nos"
      "session (season_url link season_no) = Inr page" "blk \<in> set (info_blocks page)"
  proof (cases "get_ratings float_of_str float_of_int np_arange name session w")
    case (Pair r w')
    show ?thesis
    proof (cases r)
      case (Inl e)
      with Pair show ?thesis by simp
    next
      case (Inr rows)
      with Pair have "get_ratings float_of_str float_of_int np_arange name session w = (Inr rows, w')"
        by simp
      from get_ratings_all_blocks [OF this that(1-4)] that(5,6)
      obtain row where "episode_row name link seasons season_no (top_list w) blk = Inr row"
        by auto
      with no_row [of name link seasons season_no "top_list w"] show ?thesis by simp
    qed
  qed
  from number row run show ?thesis by blast
qed

theorem missing_episode_number_aborts_witness:
  "episode_number unnumbered_block = None \<and>
   get_number (episode_number unnumbered_block) = Inr PNone \<and>
   episode_row ''Breaking Bad'' ''/title/tt0903747/'' 1 1 example_top_list unnumbered_block =
     Inl TypeError \<and>
   fst (get_ratings example_float_of_str example_float_of_int example_arange ''Breaking Bad''
     (series_session [unnumbered_block]) example_world) = Inl TypeError"
proof -
  have absent: "episode_number unnumbered_block = None"
    by (simp add: unnumbered_block_def)
  have one: "length (filter (\<lambda>r. series_name r = ''Breaking Bad'') example_top_list) = 1"
    by (simp add: example_top_list_def)
  have run: "fst (get_ratings example_float_of_str example_float_of_int example_arange ''Breaking Bad''
     (series_session [unnumbered_block]) example_world) = Inl TypeError"
    by (simp add: collector_eval unnumbered_block_def)
  have link: "lookup_item series_link ''Breaking Bad'' (top_list example_world) =
      Inr ''/title/tt0903747/''"
    by (simp add: lookup_item_def example_world_def example_top_list_def)
  have seasons: "fst (get_last_season ''Breaking Bad'' (series_session [unnumbered_block])
      example_world) = Inr 1"
    by (simp add: collector_eval)
  have page: "series_session [unnumbered_block] (season_url ''/title/tt0903747/'' 1) =
      Inr (season_page [unnumbered_block])"
    by (simp add: collector_eval)
  have blk: "unnumbered_block \<in> set (info_blocks (season_page [unnumbered_block]))"
    by (simp add: season_page_def)
  have range: "example_arange 1 (1 + 1) = Inr [1]" "(1 :: int) \<in> set [1]"
    by (simp_all add: example_arange_def)
  from missing_episode_number_aborts [OF absent,
      where name = "''Breaking Bad''" and tbl = example_top_list
        and link = "''/title/tt0903747/''" and seasons = 1 and season_no = 1
        and w = example_world and session = "series_session [unnumbered_block]"
        and page = "season_page [unnumbered_block]"
        and float_of_str = example_float_of_str and float_of_int = example_float_of_int
        and np_arange = example_arange and season_nos = "[1]"]
    absent one link seasons page blk range run
  show ?thesis by simp
qed

section \<open>The collector: the values of a row\<close>

lemma to_float64_sentinel:
  "to_float64 float_of_str float_of_int (PInt (- 1)) = Inr (float_of_int (- 1))"
  by (simp add: to_float64_def)

lemma to_int64_sentinel: "to_int64 (PInt 0) = Inr 0"
  by (simp add: to_int64_def int64_range_def)

lemma get_ratings_row_values:
  assumes "get_ratings float_of_str float_of_int np_arange name session w = (Inr rows, w')"
    and "row \<in> set rows"
  shows "\<exists>entry seasons season_nos season_no page blk.
     filter (\<lambda>r. series_name r = name) (top_list w) = [entry] \<and>
     fst (get_last_season name session w) = Inr seasons \<and>
     np_arange 1 (seasons + 1) = Inr season_nos \<and> season_no \<in> set season_nos \<and>
     session (season_url (series_link entry) season_no) = Inr page \<and>
     blk \<in> set (info_blocks page) \<and>
     ep_series_name row = name \<and>
     to_int64 (PStr (series_rank entry)) = Inr (ep_series_rank row) \<and>
     to_int64 (PStr (series_origin_year entry)) = Inr (ep_series_origin_year row) \<and>
     ep_series_link row = series_link entry \<and>
     ep_series_n_seasons row = seasons \<and>
     season row = season_no \<and>
     (\<exists>t c. episode_number blk = Some t \<and> tag_attrs t ''content'' = Some c \<and>
        to_int64 (PStr c) = Inr (episode row)) \<and>
     to_float64 float_of_str float_of_int
       (case rating_star blk of None \<Rightarrow> PInt (- 1) | Some t \<Rightarrow> PStr (tag_text t)) =
       Inr (episode_rating row) \<and>
     to_int64
       (case total_votes_node blk of None \<Rightarrow> PInt 0
        | Some t \<Rightarrow> PStr (filter (\<lambda>c. c \<noteq> CHR ''('' \<and> c \<noteq> CHR '')'' \<and> c \<noteq> CHR '','') (tag_text t))) =
       Inr (episode_total_votes row) \<and>
     episode_description row =
       (case item_description blk of None \<Rightarrow> ''N/A'' | Some t \<Rightarrow> py_strip (tag_text t))"
proof -
  from get_ratings_Inr [OF assms(1)] obtain link seasons season_nos df where
    link: "lookup_item series_link name (top_list w) = Inr link"
    and seasons: "fst (get_last_season name session w) = Inr seasons"
      "np_arange 1 (seasons + 1) = Inr season_nos"
    and conv: "astype float_of_str float_of_int df = Inr rows"
    and df: "\<forall>raw \<in> set df. \<exists>season_no page blk. season_no \<in> set season_nos \<and>
        session (season_url link season_no) = Inr page \<and> blk \<in> set (info_blocks page) \<and>
        episode_row name link seasons season_no (top_list w) blk = Inr raw"
    by blast
  from link obtain entry where
    entry: "filter (\<lambda>r. series_name r = name) (top_list w) = [entry]"
    and link_eq: "link = series_link entry"
    using lookup_item_cases [of name "top_list w" series_link] by auto
  have cols: "lookup_item series_rank name (top_list w) = Inr (series_rank entry)"
    "lookup_item series_origin_year name (top_list w) = Inr (series_origin_year entry)"
    using entry by (simp_all add: lookup_item_def)
  from list_all2_in_right [OF astype_Inr [OF conv] assms(2)] obtain raw where
    raw: "raw \<in> set df"
    and fields: "ep_series_name row = raw_series_name raw"
      "to_int64 (PStr (raw_series_rank raw)) = Inr (ep_series_rank row)"
      "to_int64 (PStr (raw_series_origin_year raw)) = Inr (ep_series_origin_year row)"
      "ep_series_link row = raw_series_link raw"
      "to_int64 (PInt (raw_series_n_seasons raw)) = Inr (ep_series_n_seasons row)"
      "to_int64 (PInt (raw_season raw)) = Inr (season row)"
      "to_int64 (PStr (raw_episode raw)) = Inr (episode row)"
      "to_float64 float_of_str float_of_int (raw_episode_rating raw) = Inr (episode_rating row)"
      "to_int64 (raw_episode_total_votes raw) = Inr (episode_total_votes row)"
      "episode_description row = raw_episode_description raw"
    by blast
  from df raw obtain season_no page blk where
    range: "season_no \<in> set season_nos"
    and page: "session (season_url link season_no) = Inr page" "blk \<in> set (info_blocks page)"
    and made: "episode_row name link seasons season_no (top_list w) blk = Inr raw"
    by blast
  from made cols obtain t c where
    number: "episode_number blk = Some t" "tag_attrs t ''content'' = Some c"
    and raw_eq: "raw = \<lparr>raw_series_name = name, raw_series_rank = series_rank entry,
            raw_series_origin_year = series_origin_year entry, raw_series_link = link,
            raw_series_n_seasons = seasons, raw_season = season_no,
            raw_episode = c,
            raw_episode_rating =
              (case rating_star blk of None \<Rightarrow> PInt (- 1) | Some t \<Rightarrow> PStr (tag_text t)),
            raw_episode_total_votes =
              (case total_votes_node blk of None \<Rightarrow> PInt 0
               | Some t \<Rightarrow> PStr (filter (\<lambda>c. c \<noteq> CHR ''('' \<and> c \<noteq> CHR '')'' \<and> c \<noteq> CHR '','') (tag_text t))),
            raw_episode_description =
              (case item_description blk of None \<Rightarrow> ''N/A'' | Some t \<Rightarrow> py_strip (tag_text t))\<rparr>"
    by (auto simp: episode_row_eq py_getitem_def of_find_def split: option.splits)
  have ints: "ep_series_n_seasons row = seasons" "season row = season_no"
    using fields(5,6) raw_eq by (auto simp: to_int64_def int64_range_def split: if_splits)
  show ?thesis
    using entry seasons range page number fields ints unfolding raw_eq link_eq
    by (intro exI [of _ entry] exI [of _ seasons] exI [of _ season_nos] exI [of _ season_no]
        exI [of _ page] exI [of _ blk]) auto
qed

subsection \<open>The table is the entries of the blocks\<close>

lemma traverse_all: "list_all2 (\<lambda>x y. f x = Inr y) xs ys \<Longrightarrow> traverse f xs = Inr ys"
  by (induction rule: list_all2_induct) auto

lemma traverse_iff: "traverse f xs = Inr ys \<longleftrightarrow> list_all2 (\<lambda>x y. f x = Inr y) xs ys"
  using traverse_Inr traverse_all by blast

lemma traverse_append:
  "traverse f (xs @ ys) =
     and_then (traverse f xs) (\<lambda>a. and_then (traverse f ys) (\<lambda>b. Inr (a @ b)))"
  by (induction xs) (auto simp: and_then_def split: sum.splits)

lemma traverse_map: "traverse f (map g xs) = traverse (\<lambda>x. f (g x)) xs"
  by (induction xs) (auto split: sum.splits)

lemma traverse_compose:
  "(\<exists>ys. traverse f xs = Inr ys \<and> traverse g ys = Inr zs) \<longleftrightarrow>
   traverse (\<lambda>x. and_then (f x) g) xs = Inr zs"
proof (induction xs arbitrary: zs)
  case Nil
  show ?case by auto
next
  case (Cons x xs)
  show ?case
  proof (cases "f x")
    case (Inl e)
    then show ?thesis by simp
  next
    case fx: (Inr y)
    show ?thesis
    proof (cases "g y")
      case (Inl e)
      with fx show ?thesis by (auto split: sum.splits)
    next
      case gy: (Inr z)
      show ?thesis
      proof
        assume "\<exists>ys. traverse f (x # xs) = Inr ys \<and> traverse g ys = Inr zs"
        then obtain ys' zs' where "traverse f xs = Inr ys'" "traverse g ys' = Inr zs'" "zs = z # zs'"
          using fx gy by (auto split: sum.splits)
        then have "traverse (\<lambda>x. and_then (f x) g) xs = Inr zs'" using Cons.IH by blast
        then show "traverse (\<lambda>x. and_then (f x) g) (x # xs) = Inr zs"
          using fx gy \<open>zs = z # zs'\<close> by simp
      next
        assume "traverse (\<lambda>x. and_then (f x) g) (x # xs) = Inr zs"
        then obtain zs' where "traverse (\<lambda>x. and_then (f x) g) xs = Inr zs'" "zs = z # zs'"
          using fx gy by (auto split: sum.splits)
        then obtain ys' where "traverse f xs = Inr ys'" "traverse g ys' = Inr zs'"
          using Cons.IH by blast
        then show "\<exists>ys. traverse f (x # xs) = Inr ys \<and> traverse g ys = Inr zs"
          using fx gy \<open>zs = z # zs'\<close> by simp
      qed
    qed
  qed
qed

lemma convert_row_Inr:
  "convert_row float_of_str float_of_int raw = Inr row \<longleftrightarrow>
      ep_series_name row = raw_series_name raw \<and>
      to_int64 (PStr (raw_series_rank raw)) = Inr (ep_series_rank row) \<and>
      to_int64 (PStr (raw_series_origin_year raw)) = Inr (ep_series_origin_year row) \<and>
      ep_series_link row = raw_series_link raw \<and>
      to_int64 (PInt (raw_series_n_seasons raw)) = Inr (ep_series_n_seasons row) \<and>
      to_int64 (PInt (raw_season raw)) = Inr (season row) \<and>
      to_int64 (PStr (raw_episode raw)) = Inr (episode row) \<and>
      to_float64 float_of_str float_of_int (raw_episode_rating raw) = Inr (episode_rating row) \<and>
      to_int64 (raw_episode_total_votes raw) = Inr (episode_total_votes row) \<and>
      episode_description row = raw_episode_description raw"
  by (cases row) (auto simp: convert_row_def and_then_def split: sum.splits)

lemma astype_rowwise:
  "astype float_of_str float_of_int df = Inr rows \<longleftrightarrow>
   traverse (convert_row float_of_str float_of_int) df = Inr rows"
proof
  assume "astype float_of_str float_of_int df = Inr rows"
  from astype_Inr [OF this] show "traverse (convert_row float_of_str float_of_int) df = Inr rows"
    unfolding traverse_iff convert_row_Inr .
next
  assume "traverse (convert_row float_of_str float_of_int) df = Inr rows"
  then have all: "list_all2 (\<lambda>raw row. convert_row float_of_str float_of_int raw = Inr row) df rows"
    by (simp add: traverse_iff)
  then have len: "length df = length rows" by (rule list_all2_lengthD)
  have nth: "convert_row float_of_str float_of_int (df ! i) = Inr (rows ! i)" if "i < length df" for i
    using all that by (simp add: list_all2_conv_all_nth)
  have col: "traverse f df = Inr (map g rows)"
    if "\<And>raw row. convert_row float_of_str float_of_int raw = Inr row \<Longrightarrow> f raw = Inr (g row)"
    for f :: "raw_row \<Rightarrow> py_error + 'b" and g
    unfolding traverse_iff list_all2_map2
    by (rule list_all2_mono [OF all]) (rule that)
  have cols:
    "traverse (\<lambda>r. to_int64 (PStr (raw_series_rank r))) df = Inr (map ep_series_rank rows)"
    "traverse (\<lambda>r. to_int64 (PStr (raw_series_origin_year r))) df = Inr (map ep_series_origin_year rows)"
    "traverse (\<lambda>r. to_int64 (PInt (raw_series_n_seasons r))) df = Inr (map ep_series_n_seasons rows)"
    "traverse (\<lambda>r. to_int64 (PInt (raw_season r))) df = Inr (map season rows)"
    "traverse (\<lambda>r. to_int64 (PStr (raw_episode r))) df = Inr (map episode rows)"
    "traverse (\<lambda>r. to_float64 float_of_str float_of_int (raw_episode_rating r)) df =
       Inr (map episode_rating rows)"
    "traverse (\<lambda>r. to_int64 (raw_episode_total_votes r)) df = Inr (map episode_total_votes rows)"
    by (rule col, simp add: convert_row_Inr)+
  show "astype float_of_str float_of_int df = Inr rows"
    unfolding astype_def cols and_then_Inr
    using nth len
    by (auto simp: convert_row_Inr intro!: nth_equalityI)
qed


lemma season_blocks_Nil [simp]: "season_blocks [] pages = []" "season_blocks ss [] = []"
  by (simp_all add: season_blocks_def)

lemma season_blocks_Cons [simp]:
  "season_blocks (s # ss) (p # ps) = map (Pair s) (info_blocks p) @ season_blocks ss ps"
  by (simp add: season_blocks_def)

lemma seasons_loop_exact:
  assumes "list_all2 (\<lambda>s page. session (season_url link s) = Inr page) ss pages"
  shows "fst (seasons_loop name (Some link) seasons session ss df w) =
     and_then
       (traverse (\<lambda>(s, blk). episode_row name link seasons s (top_list w) blk)
          (season_blocks ss pages))
       (\<lambda>new. Inr (df @ new))"
  using assms
proof (induction arbitrary: df w rule: list_all2_induct)
  case Nil
  show ?case by simp
next
  case (Cons s ss p ps)
  show ?case
  proof (cases "traverse (episode_row name link seasons s (top_list w)) (info_blocks p)")
    case (Inl e)
    then show ?thesis
      using Cons.hyps(1)
      by (simp add: episodes_loop_traverse traverse_append traverse_map)
  next
    case (Inr new)
    then show ?thesis
      using Cons.hyps(1)
        Cons.IH [of "df @ new"
          "emit (Print (SeasonScraped s)) (emit (Get (season_url link s)) (emit Sleep w))"]
      by (simp add: episodes_loop_traverse traverse_append traverse_map and_then_def
          split: sum.splits)
  qed
qed

lemma get_ratings_exact:
  assumes link: "lookup_item series_link name (top_list w) = Inr link"
    and seasons: "fst (get_last_season name session w) = Inr seasons"
    and range: "np_arange 1 (seasons + 1) = Inr season_nos"
    and pages: "list_all2 (\<lambda>s page. session (season_url link s) = Inr page) season_nos pages"
  shows "fst (get_ratings float_of_str float_of_int np_arange name session w) = Inr rows \<longleftrightarrow>
     list_all2 (\<lambda>(s, blk) row.
         block_entry float_of_str float_of_int name link seasons s (top_list w) blk = Inr row)
       (season_blocks season_nos pages) rows"
proof -
  obtain w2 where g: "get_last_season name session w = (Inr seasons, w2)"
    using seasons by (cases "get_last_season name session w") simp
  have w2: "top_list w2 = top_list w"
    using get_last_season_frame [of name session w] g by simp
  let ?w3 = "emit (Print GettingEpisodes) w2"
  let ?loop = "seasons_loop name (Some link) seasons session season_nos [] ?w3"
  let ?T = "\<lambda>(s, blk). episode_row name link seasons s (top_list w) blk"
  have run: "fst (get_ratings float_of_str float_of_int np_arange name session w) =
      and_then (fst ?loop) (astype float_of_str float_of_int)"
    by (cases ?loop)
       (auto simp: get_ratings_def try_series_link_found [OF link] g range split: sum.splits)
  have loop: "fst ?loop = traverse ?T (season_blocks season_nos pages)"
    using seasons_loop_exact [OF pages, of name seasons "[]" ?w3] w2
    by (cases "traverse ?T (season_blocks season_nos pages)") simp_all
  have "fst (get_ratings float_of_str float_of_int np_arange name session w) = Inr rows \<longleftrightarrow>
      (\<exists>df. traverse ?T (season_blocks season_nos pages) = Inr df \<and>
         traverse (convert_row float_of_str float_of_int) df = Inr rows)"
    unfolding run loop by (auto simp: and_then_def astype_rowwise split: sum.splits)
  also have "\<dots> \<longleftrightarrow>
      traverse (\<lambda>x. and_then (?T x) (convert_row float_of_str float_of_int))
        (season_blocks season_nos pages) = Inr rows"
    by (rule traverse_compose)
  also have "\<dots> \<longleftrightarrow> list_all2 (\<lambda>(s, blk) row.
         block_entry float_of_str float_of_int name link seasons s (top_list w) blk = Inr row)
       (season_blocks season_nos pages) rows"
    unfolding traverse_iff by (simp add: block_entry_def split_def)
  finally show ?thesis .
qed

lemma episode_row_without:
  assumes "episode_row name link seasons season_no tbl blk = Inr raw"
  shows "episode_row name link seasons season_no tbl (blk\<lparr>item_description := None\<rparr>) =
           Inr (raw\<lparr>raw_episode_description := ''N/A''\<rparr>)"
    and "episode_row name link seasons season_no tbl (blk\<lparr>rating_star := None\<rparr>) =
           Inr (raw\<lparr>raw_episode_rating := PInt (- 1)\<rparr>)"
    and "episode_row name link seasons season_no tbl (blk\<lparr>total_votes_node := None\<rparr>) =
           Inr (raw\<lparr>raw_episode_total_votes := PInt 0\<rparr>)"
proof -
  from assms obtain rank year content where
    "lookup_item series_rank name tbl = Inr rank"
    "lookup_item series_origin_year name tbl = Inr year"
    "py_getitem (of_find (episode_number blk)) ''content'' = Inr content"
    unfolding episode_row_eq and_then_def by (auto split: sum.splits)
  with assms show
    "episode_row name link seasons season_no tbl (blk\<lparr>item_description := None\<rparr>) =
           Inr (raw\<lparr>raw_episode_description := ''N/A''\<rparr>)"
    "episode_row name link seasons season_no tbl (blk\<lparr>rating_star := None\<rparr>) =
           Inr (raw\<lparr>raw_episode_rating := PInt (- 1)\<rparr>)"
    "episode_row name link seasons season_no tbl (blk\<lparr>total_votes_node := None\<rparr>) =
           Inr (raw\<lparr>raw_episode_total_votes := PInt 0\<rparr>)"
    by (auto simp: episode_row_eq)
qed

lemma convert_row_without:
  assumes "convert_row float_of_str float_of_int raw = Inr entry"
  shows "convert_row float_of_str float_of_int (raw\<lparr>raw_episode_description := ''N/A''\<rparr>) =
           Inr (entry\<lparr>episode_description := ''N/A''\<rparr>)"
    and "convert_row float_of_str float_of_int (raw\<lparr>raw_episode_rating := PInt (- 1)\<rparr>) =
           Inr (entry\<lparr>episode_rating := float_of_int (- 1)\<rparr>)"
    and "convert_row float_of_str float_of_int (raw\<lparr>raw_episode_total_votes := PInt 0\<rparr>) =
           Inr (entry\<lparr>episode_total_votes := 0\<rparr>)"
  using assms
  by (simp_all add: convert_row_Inr to_float64_def to_int64_def int64_range_def)

lemma block_entry_without:
  assumes "block_entry float_of_str float_of_int name link seasons season_no tbl blk = Inr entry"
  shows "block_entry float_of_str float_of_int name link seasons season_no tbl
           (blk\<lparr>item_description := None\<rparr>) = Inr (entry\<lparr>episode_description := ''N/A''\<rparr>)"
    and "block_entry float_of_str float_of_int name link seasons season_no tbl
           (blk\<lparr>rating_star := None\<rparr>) = Inr (entry\<lparr>episode_rating := float_of_int (- 1)\<rparr>)"
    and "block_entry float_of_str float_of_int name link seasons season_no tbl
           (blk\<lparr>total_votes_node := None\<rparr>) = Inr (entry\<lparr>episode_total_votes := 0\<rparr>)"
proof -
  from assms obtain raw where
    raw: "episode_row name link seasons season_no tbl blk = Inr raw"
    and conv: "convert_row float_of_str float_of_int raw = Inr entry"
    unfolding block_entry_def and_then_def by (auto split: sum.splits)
  show "block_entry float_of_str float_of_int name link seasons season_no tbl
           (blk\<lparr>item_description := None\<rparr>) = Inr (entry\<lparr>episode_description := ''N/A''\<rparr>)"
    "block_entry float_of_str float_of_int name link seasons season_no tbl
           (blk\<lparr>rating_star := None\<rparr>) = Inr (entry\<lparr>episode_rating := float_of_int (- 1)\<rparr>)"
    "block_entry float_of_str float_of_int name link seasons season_no tbl
           (blk\<lparr>total_votes_node := None\<rparr>) = Inr (entry\<lparr>episode_total_votes := 0\<rparr>)"
    by (simp_all add: block_entry_def episode_row_without [OF raw] convert_row_without [OF conv])
qed

lemma block_entry_lacks:
  assumes "lacks_optional b b'"
    and "block_entry float_of_str float_of_int name link seasons season_no tbl b = Inr entry"
  shows "\<exists>d r v.
     block_entry float_of_str float_of_int name link seasons season_no tbl b' =
       Inr (entry\<lparr>episode_description := d, episode_rating := r, episode_total_votes := v\<rparr>) \<and>
     (d = episode_description entry \<or> d = ''N/A'') \<and>
     (r = episode_rating entry \<or> r = float_of_int (- 1)) \<and>
     (v = episode_total_votes entry \<or> v = 0)"
proof -
  let ?E = "block_entry float_of_str float_of_int name link seasons season_no tbl"
  let ?b1 = "b\<lparr>item_description := item_description b'\<rparr>"
  let ?b2 = "?b1\<lparr>rating_star := rating_star b'\<rparr>"
  let ?b3 = "?b2\<lparr>total_votes_node := total_votes_node b'\<rparr>"
  have d: "item_description b' = item_description b \<or> item_description b' = None"
    and r: "rating_star b' = rating_star b \<or> rating_star b' = None"
    and v: "total_votes_node b' = total_votes_node b \<or> total_votes_node b' = None"
    and n: "episode_number b' = episode_number b"
    using assms(1) by (simp_all add: lacks_optional_def)
  from d obtain d' where e1: "?E ?b1 = Inr (entry\<lparr>episode_description := d'\<rparr>)"
    and d': "d' = episode_description entry \<or> d' = ''N/A''"
  proof
    assume "item_description b' = item_description b"
    then have "?b1 = b" by simp
    with assms(2) that [of "episode_description entry"] show ?thesis by simp
  next
    assume "item_description b' = None"
    with block_entry_without(1) [OF assms(2)] that [of "''N/A''"] show ?thesis by simp
  qed
  from r obtain r' where
    e2: "?E ?b2 = Inr (entry\<lparr>episode_description := d', episode_rating := r'\<rparr>)"
    and r': "r' = episode_rating entry \<or> r' = float_of_int (- 1)"
  proof
    assume "rating_star b' = rating_star b"
    then have "?b2 = ?b1" by simp
    with e1 that [of "episode_rating entry"] show ?thesis by simp
  next
    assume "rating_star b' = None"
    with block_entry_without(2) [OF e1] that [of "float_of_int (- 1)"] show ?thesis by simp
  qed
  from v obtain v' where
    e3: "?E ?b3 = Inr (entry\<lparr>episode_description := d', episode_rating := r',
        episode_total_votes := v'\<rparr>)"
    and v': "v' = episode_total_votes entry \<or> v' = 0"
  proof
    assume "total_votes_node b' = total_votes_node b"
    then have "?b3 = ?b2" by simp
    with e2 that [of "episode_total_votes entry"] show ?thesis by simp
  next
    assume "total_votes_node b' = None"
    with block_entry_without(3) [OF e2] that [of 0] show ?thesis by simp
  qed
  have "?b3 = b'" using n by simp
  with e3 d' r' v' show ?thesis by auto
qed

lemma season_blocks_rel:
  assumes "list_all2 (\<lambda>p p'. list_all2 R (info_blocks p) (info_blocks p')) pages pages'"
  shows "list_all2 (\<lambda>x x'. fst x' = fst x \<and> R (snd x) (snd x'))
     (season_blocks ss pages) (season_blocks ss pages')"
  using assms
proof (induction arbitrary: ss rule: list_all2_induct)
  case Nil
  show ?case by simp
next
  case (Cons p ps p' ps')
  show ?case
  proof (cases ss)
    case Nil
    then show ?thesis by simp
  next
    case (Cons s rest)
    have "list_all2 (\<lambda>x x'. fst x' = fst x \<and> R (snd x) (snd x'))
        (map (Pair s) (info_blocks p)) (map (Pair s) (info_blocks p'))"
      using Cons.hyps(1) by (simp add: list_all2_map1 list_all2_map2)
    with Cons.IH [of rest] show ?thesis
      unfolding Cons by (simp add: list_all2_appendI)
  qed
qed

lemma list_all2_exists: "\<forall>x \<in> set xs. \<exists>y. P x y \<Longrightarrow> \<exists>ys. list_all2 P xs ys"
proof (induction xs)
  case Nil
  show ?case by simp
next
  case (Cons x xs)
  then obtain y ys where "P x y" "list_all2 P xs ys" by auto
  then have "list_all2 P (x # xs) (y # ys)" by simp
  then show ?case by blast
qed

lemma list_all2_in_left: "list_all2 P xs ys \<Longrightarrow> x \<in> set xs \<Longrightarrow> \<exists>y \<in> set ys. P x y"
  by (induction rule: list_all2_induct) auto

lemma get_ratings_lacks:
  assumes link: "lookup_item series_link name (top_list w) = Inr link"
    and seasons: "fst (get_last_season name session w) = Inr seasons"
      "fst (get_last_season name session' w) = Inr seasons"
    and range: "np_arange 1 (seasons + 1) = Inr season_nos"
    and pages: "list_all2 (\<lambda>s page. session (season_url link s) = Inr page) season_nos pages"
      "list_all2 (\<lambda>s page. session' (season_url link s) = Inr page) season_nos pages'"
    and less: "list_all2 (\<lambda>p p'. list_all2 lacks_optional (info_blocks p) (info_blocks p'))
        pages pages'"
    and run: "fst (get_ratings float_of_str float_of_int np_arange name session w) = Inr rows"
  shows "\<exists>rows'. fst (get_ratings float_of_str float_of_int np_arange name session' w) = Inr rows' \<and>
     list_all2 (\<lambda>row row'. \<exists>d r v.
         row' = row\<lparr>episode_description := d, episode_rating := r, episode_total_votes := v\<rparr> \<and>
         (d = episode_description row \<or> d = ''N/A'') \<and>
         (r = episode_rating row \<or> r = float_of_int (- 1)) \<and>
         (v = episode_total_votes row \<or> v = 0)) rows rows'"
proof -
  let ?E = "\<lambda>x row. block_entry float_of_str float_of_int name link seasons
      (fst x) (top_list w) (snd x) = Inr row"
  let ?Q = "\<lambda>row row'. \<exists>d r v.
         row' = row\<lparr>episode_description := d, episode_rating := r, episode_total_votes := v\<rparr> \<and>
         (d = episode_description row \<or> d = ''N/A'') \<and>
         (r = episode_rating row \<or> r = float_of_int (- 1)) \<and>
         (v = episode_total_votes row \<or> v = 0)"
  have exact: "fst (get_ratings float_of_str float_of_int np_arange name session w) = Inr rows \<longleftrightarrow>
      list_all2 ?E (season_blocks season_nos pages) rows" for rows
    using get_ratings_exact [where np_arange = np_arange and session = session,
        OF link seasons(1) range pages(1)] by (simp add: split_def)
  have exact': "fst (get_ratings float_of_str float_of_int np_arange name session' w) = Inr rows \<longleftrightarrow>
      list_all2 ?E (season_blocks season_nos pages') rows" for rows
    using get_ratings_exact [where np_arange = np_arange and session = session',
        OF link seasons(2) range pages(2)] by (simp add: split_def)
  from run have entries: "list_all2 ?E (season_blocks season_nos pages) rows"
    by (simp add: exact)
  note rel = season_blocks_rel [OF less, of season_nos]
  have step: "\<exists>row'. ?E x' row' \<and> ?Q row row'"
    if "fst x' = fst x" "lacks_optional (snd x) (snd x')" "?E x row" for x x' row
    using block_entry_lacks [OF that(2,3)] that(1) by auto
  have "\<exists>row'. ?E x' row'" if "x' \<in> set (season_blocks season_nos pages')" for x'
  proof -
    from list_all2_in_right [OF rel that] obtain x where
      x: "x \<in> set (season_blocks season_nos pages)" "fst x' = fst x"
        "lacks_optional (snd x) (snd x')"
      by blast
    from list_all2_in_left [OF entries x(1)] obtain row where "?E x row" by blast
    from step [OF x(2,3) this] show ?thesis by blast
  qed
  then obtain rows' where rows': "list_all2 ?E (season_blocks season_nos pages') rows'"
    using list_all2_exists [of "season_blocks season_nos pages'" ?E] by blast
  have len: "length (season_blocks season_nos pages) = length rows"
    "length (season_blocks season_nos pages') = length rows'"
    "length (season_blocks season_nos pages) = length (season_blocks season_nos pages')"
    using list_all2_lengthD [OF rows'] list_all2_lengthD [OF entries] list_all2_lengthD [OF rel]
    by simp_all
  have "?Q (rows ! i) (rows' ! i)" if "i < length rows" for i
  proof -
    let ?x = "season_blocks season_nos pages ! i" and ?x' = "season_blocks season_nos pages' ! i"
    have "fst ?x' = fst ?x" "lacks_optional (snd ?x) (snd ?x')"
      using rel that len by (simp_all add: list_all2_conv_all_nth)
    moreover have "?E ?x (rows ! i)"
      using entries that by (simp add: list_all2_conv_all_nth)
    ultimately obtain row' where "?E ?x' row'" "?Q (rows ! i) row'"
      using step by blast
    moreover have "?E ?x' (rows' ! i)"
      using rows' that len by (simp add: list_all2_conv_all_nth)
    ultimately show ?thesis by simp
  qed
  then have "list_all2 ?Q rows rows'"
    using len by (simp add: list_all2_conv_all_nth)
  with rows' show ?thesis by (auto simp: exact')
qed


text \<open>
  C4. Each of the three optional fields has its own fallback: with no description node
  the description is \<open>N/A\<close>, with no rating node the rating is \<open>-1\<close>, with no vote
  node the vote count is \<open>0\<close>. None of the three extractions raises, each value of a row
  depends on its own node only, and whether a block yields a row does not depend on the
  three nodes. Taking one optional node away from a block that yields an entry changes
  that one field of the entry to its fallback and nothing else. When the season pages are
  fetched, the run returns exactly the entries of their blocks, in order, as soon as every
  block yields one; so a run that returns a table still returns one when optional nodes
  are taken away from its blocks, row for row the same but for the fallbacks.
\<close>

theorem optional_fields_fall_back:
  "get_description None = Inr ''N/A'' \<and>
   get_rating None = Inr (PInt (- 1)) \<and>
   get_total_votes None = Inr (PInt 0) \<and>
   (\<exists>d r v. get_description dn = Inr d \<and> get_rating rn = Inr r \<and> get_total_votes vn = Inr v) \<and>
   (episode_row name link seasons season_no tbl blk = Inr row \<longrightarrow>
      Inr (raw_episode_description row) = get_description (item_description blk) \<and>
      Inr (raw_episode_rating row) = get_rating (rating_star blk) \<and>
      Inr (raw_episode_total_votes row) = get_total_votes (total_votes_node blk)) \<and>
   ((\<exists>row. episode_row name link seasons season_no tbl blk = Inr row) \<longleftrightarrow>
    (\<exists>row. episode_row name link seasons season_no tbl
       (blk\<lparr>item_description := dn, rating_star := rn, total_votes_node := vn\<rparr>) = Inr row)) \<and>
   to_float64 float_of_str float_of_int (PInt (- 1)) = Inr (float_of_int (- 1)) \<and>
   to_int64 (PInt 0) = Inr 0 \<and>
   (block_entry float_of_str float_of_int name link seasons season_no tbl blk = Inr entry \<longrightarrow>
      block_entry float_of_str float_of_int name link seasons season_no tbl
        (blk\<lparr>item_description := None\<rparr>) = Inr (entry\<lparr>episode_description := ''N/A''\<rparr>) \<and>
      block_entry float_of_str float_of_int name link seasons season_no tbl
        (blk\<lparr>rating_star := None\<rparr>) = Inr (entry\<lparr>episode_rating := float_of_int (- 1)\<rparr>) \<and>
      block_entry float_of_str float_of_int name link seasons season_no tbl
        (blk\<lparr>total_votes_node := None\<rparr>) = Inr (entry\<lparr>episode_total_votes := 0\<rparr>)) \<and>
   (lookup_item series_link name (top_list w) = Inr link \<and>
    fst (get_last_season name session w) = Inr seasons \<and>
    np_arange 1 (seasons + 1) = Inr season_nos \<and>
    list_all2 (\<lambda>s page. session (season_url link s) = Inr page) season_nos pages \<longrightarrow>
      (fst (get_ratings float_of_str float_of_int np_arange name session w) = Inr rows \<longleftrightarrow>
       list_all2 (\<lambda>(s, b) e.
           block_entry float_of_str float_of_int name link seasons s (top_list w) b = Inr e)
         (season_blocks season_nos pages) rows)) \<and>
   (lookup_item series_link name (top_list w) = Inr link \<and>
    fst (get_last_season name session w) = Inr seasons \<and>
    fst (get_last_season name session' w) = Inr seasons \<and>
    np_arange 1 (seasons + 1) = Inr season_nos \<and>
    list_all2 (\<lambda>s page. session (season_url link s) = Inr page) season_nos pages \<and>
    list_all2 (\<lambda>s page. session' (season_url link s) = Inr page) season_nos pages' \<and>
    list_all2 (\<lambda>p p'. list_all2 lacks_optional (info_blocks p) (info_blocks p')) pages pages' \<and>
    fst (get_ratings float_of_str float_of_int np_arange name session w) = Inr rows \<longrightarrow>
      (\<exists>rows'. fst (get_ratings float_of_str float_of_int np_arange name session' w) = Inr rows' \<and>
         list_all2 (\<lambda>e e'. \<exists>d r v.
             e' = e\<lparr>episode_description := d, episode_rating := r, episode_total_votes := v\<rparr> \<and>
             (d = episode_description e \<or> d = ''N/A'') \<and>
             (r = episode_rating e \<or> r = float_of_int (- 1)) \<and>
             (v = episode_total_votes e \<or> v = 0)) rows rows'))"
proof -
  have sentinels: "get_description None = Inr ''N/A''" "get_rating None = Inr (PInt (- 1))"
    "get_total_votes None = Inr (PInt 0)"
    by (simp_all add: get_description_eq get_rating_eq get_total_votes_eq)
  have total: "\<exists>d r v. get_description dn = Inr d \<and> get_rating rn = Inr r \<and> get_total_votes vn = Inr v"
    by (simp add: get_description_eq get_rating_eq get_total_votes_eq)
  have fields: "episode_row name link seasons season_no tbl blk = Inr row \<longrightarrow>
      Inr (raw_episode_description row) = get_description (item_description blk) \<and>
      Inr (raw_episode_rating row) = get_rating (rating_star blk) \<and>
      Inr (raw_episode_total_votes row) = get_total_votes (total_votes_node blk)"
    by (auto simp: episode_row_eq get_description_eq get_rating_eq get_total_votes_eq and_then_def
        split: sum.splits)
  have same: "(\<exists>row. episode_row name link seasons season_no tbl blk = Inr row) \<longleftrightarrow>
    (\<exists>row. episode_row name link seasons season_no tbl
       (blk\<lparr>item_description := dn, rating_star := rn, total_votes_node := vn\<rparr>) = Inr row)"
    by (simp add: episode_row_eq and_then_def split: sum.splits)
  have block: "block_entry float_of_str float_of_int name link seasons season_no tbl blk = Inr entry \<longrightarrow>
      block_entry float_of_str float_of_int name link seasons season_no tbl
        (blk\<lparr>item_description := None\<rparr>) = Inr (entry\<lparr>episode_description := ''N/A''\<rparr>) \<and>
      block_entry float_of_str float_of_int name link seasons season_no tbl
        (blk\<lparr>rating_star := None\<rparr>) = Inr (entry\<lparr>episode_rating := float_of_int (- 1)\<rparr>) \<and>
      block_entry float_of_str float_of_int name link seasons season_no tbl
        (blk\<lparr>total_votes_node := None\<rparr>) = Inr (entry\<lparr>episode_total_votes := 0\<rparr>)"
    by (intro impI conjI) (erule block_entry_without)+
  have exact: "lookup_item series_link name (top_list w) = Inr link \<and>
    fst (get_last_season name session w) = Inr seasons \<and>
    np_arange 1 (seasons + 1) = Inr season_nos \<and>
    list_all2 (\<lambda>s page. session (season_url link s) = Inr page) season_nos pages \<longrightarrow>
      (fst (get_ratings float_of_str float_of_int np_arange name session w) = Inr rows \<longleftrightarrow>
       list_all2 (\<lambda>(s, b) e.
           block_entry float_of_str float_of_int name link seasons s (top_list w) b = Inr e)
         (season_blocks season_nos pages) rows)"
    using get_ratings_exact [where np_arange = np_arange and session = session] by blast
  have less: "lookup_item series_link name (top_list w) = Inr link \<and>
    fst (get_last_season name session w) = Inr seasons \<and>
    fst (get_last_season name session' w) = Inr seasons \<and>
    np_arange 1 (seasons + 1) = Inr season_nos \<and>
    list_all2 (\<lambda>s page. session (season_url link s) = Inr page) season_nos pages \<and>
    list_all2 (\<lambda>s page. session' (season_url link s) = Inr page) season_nos pages' \<and>
    list_all2 (\<lambda>p p'. list_all2 lacks_optional (info_blocks p) (info_blocks p')) pages pages' \<and>
    fst (get_ratings float_of_str float_of_int np_arange name session w) = Inr rows \<longrightarrow>
      (\<exists>rows'. fst (get_ratings float_of_str float_of_int np_arange name session' w) = Inr rows' \<and>
         list_all2 (\<lambda>e e'. \<exists>d r v.
             e' = e\<lparr>episode_description := d, episode_rating := r, episode_total_votes := v\<rparr> \<and>
             (d = episode_description e \<or> d = ''N/A'') \<and>
             (r = episode_rating e \<or> r = float_of_int (- 1)) \<and>
             (v = episode_total_votes e \<or> v = 0)) rows rows')"
    using get_ratings_lacks [where np_arange = np_arange and session = session
        and session' = session'] by blast
  show ?thesis
    by (intro conjI sentinels total fields same to_float64_sentinel to_int64_sentinel block
        exact less)
qed


theorem optional_fields_fall_back_witness:
  "lacks_optional full_block bare_block \<and>
   full_block\<lparr>item_description := None, rating_star := None, total_votes_node := None\<rparr> =
     bare_block \<and>
   block_entry example_float_of_str example_float_of_int ''Breaking Bad'' ''/title/tt0903747/''
     1 1 example_top_list full_block = Inr full_entry \<and>
   block_entry example_float_of_str example_float_of_int ''Breaking Bad'' ''/title/tt0903747/''
     1 1 example_top_list bare_block = Inr bare_entry \<and>
   bare_entry = full_entry\<lparr>episode_description := ''N/A'',
     episode_rating := example_float_of_int (- 1), episode_total_votes := 0\<rparr> \<and>
   fst (get_ratings example_float_of_str example_float_of_int example_arange ''Breaking Bad''
     (series_session [full_block, full_block]) example_world) = Inr [full_entry, full_entry] \<and>
   fst (get_ratings example_float_of_str example_float_of_int example_arange ''Breaking Bad''
     (series_session [full_block, bare_block]) example_world) = Inr [full_entry, bare_entry]"
proof -
  have less: "lacks_optional full_block bare_block"
    by (simp add: lacks_optional_def full_block_def bare_block_def)
  have bare: "full_block\<lparr>item_description := None, rating_star := None,
      total_votes_node := None\<rparr> = bare_block"
    by (simp add: full_block_def bare_block_def)
  have full_e: "block_entry example_float_of_str example_float_of_int ''Breaking Bad''
      ''/title/tt0903747/'' 1 1 example_top_list full_block = Inr full_entry"
    by (simp add: block_entry_def convert_row_def collector_eval full_block_def full_entry_def)
  have bare_e: "block_entry example_float_of_str example_float_of_int ''Breaking Bad''
      ''/title/tt0903747/'' 1 1 example_top_list bare_block = Inr bare_entry"
    by (simp add: block_entry_def convert_row_def collector_eval bare_block_def bare_entry_def)
  have entries: "bare_entry = full_entry\<lparr>episode_description := ''N/A'',
      episode_rating := example_float_of_int (- 1), episode_total_votes := 0\<rparr>"
    by (simp add: bare_entry_def full_entry_def episode_of_def example_float_of_int_def)
  have link: "lookup_item series_link ''Breaking Bad'' (top_list example_world) =
      Inr ''/title/tt0903747/''"
    by (simp add: lookup_item_def example_world_def example_top_list_def)
  have seasons: "fst (get_last_season ''Breaking Bad'' (series_session blks) example_world) = Inr 1"
    for blks
    by (simp add: collector_eval)
  have range: "example_arange 1 (1 + 1) = Inr [1]"
    by (simp add: example_arange_def)
  have pages: "list_all2 (\<lambda>s page. series_session blks (season_url ''/title/tt0903747/'' s) = Inr page)
      [1] [season_page blks]" for blks
    by (simp add: collector_eval)
  have blocks: "list_all2 (\<lambda>p p'. list_all2 lacks_optional (info_blocks p) (info_blocks p'))
      [season_page [full_block, full_block]] [season_page [full_block, bare_block]]"
    using less by (simp add: season_page_def lacks_optional_def)
  have run: "fst (get_ratings example_float_of_str example_float_of_int example_arange
      ''Breaking Bad'' (series_session [full_block, full_block]) example_world) =
      Inr [full_entry, full_entry]"
    by (simp add: collector_eval full_block_def full_entry_def)
  note inst = optional_fields_fall_back [where float_of_str = example_float_of_str
      and float_of_int = example_float_of_int and np_arange = example_arange
      and name = "''Breaking Bad''" and link = "''/title/tt0903747/''" and seasons = 1
      and season_no = 1 and tbl = example_top_list and blk = full_block and entry = full_entry
      and dn = None and rn = None and vn = None
      and row = "\<lparr>raw_series_name = ''Breaking Bad'', raw_series_rank = ''1'',
          raw_series_origin_year = ''2008'', raw_series_link = ''/title/tt0903747/'',
          raw_series_n_seasons = 1, raw_season = 1, raw_episode = ''3'',
          raw_episode_rating = PStr ''8.4'', raw_episode_total_votes = PStr ''1234'',
          raw_episode_description = ''A teacher turns to crime.''\<rparr>"
      and w = example_world and session = "series_session [full_block, full_block]"
      and session' = "series_session [full_block, bare_block]" and season_nos = "[1]"
      and pages = "[season_page [full_block, full_block]]"
      and pages' = "[season_page [full_block, bare_block]]"
      and rows = "[full_entry, full_entry]"]
  from inst link seasons range pages blocks run
  have "\<exists>rows'. fst (get_ratings example_float_of_str example_float_of_int example_arange
      ''Breaking Bad'' (series_session [full_block, bare_block]) example_world) = Inr rows' \<and>
         list_all2 (\<lambda>e e'. \<exists>d r v.
             e' = e\<lparr>episode_description := d, episode_rating := r, episode_total_votes := v\<rparr> \<and>
             (d = episode_description e \<or> d = ''N/A'') \<and>
             (r = episode_rating e \<or> r = example_float_of_int (- 1)) \<and>
             (v = episode_total_votes e \<or> v = 0)) [full_entry, full_entry] rows'"
    by blast
  then obtain rows' where returned: "fst (get_ratings example_float_of_str example_float_of_int
      example_arange ''Breaking Bad'' (series_session [full_block, bare_block]) example_world) =
      Inr rows'"
    by blast
  have "fst (get_ratings example_float_of_str example_float_of_int example_arange ''Breaking Bad''
     (series_session [full_block, bare_block]) example_world) = Inr [full_entry, bare_entry]"
    by (simp add: collector_eval full_block_def bare_block_def full_entry_def bare_entry_def)
  with less bare full_e bare_e entries run returned show ?thesis by simp
qed

lemma to_int64_PStr:
  "to_int64 (PStr s) = Inr v \<Longrightarrow> py_int s = Inr v \<and> - (2 ^ 63) \<le> v \<and> v < 2 ^ 63"
  by (auto simp: to_int64_def int64_range_def and_then_def split: sum.splits if_splits)

lemma run_pair: "fst run = Inr rows \<Longrightarrow> run = (Inr rows, snd run)"
  by (cases run) simp

text \<open>
  C8, amended. Every row of the table \<open>get_ratings\<close> returns comes from an episode block
  of a fetched season page: its rating is \<open>-1\<close> when the block has no rating node and
  otherwise the float read from the text of the node; its vote count is \<open>0\<close> when the
  block has no vote node and otherwise the integer read from the text without
  parentheses and commas, in both cases a signed 64-bit integer; its description is
  \<open>N/A\<close> when the block has no description node and otherwise the stripped text of the
  node. No range is checked and the stripped text may be empty.
\<close>

theorem episode_values:
  assumes "get_ratings float_of_str float_of_int np_arange name session w = (Inr rows, w')"
  shows "\<forall>row \<in> set rows. \<exists>season_no page blk.
     session (season_url (ep_series_link row) season_no) = Inr page \<and>
     blk \<in> set (info_blocks page) \<and>
     (case rating_star blk of
        None \<Rightarrow> episode_rating row = float_of_int (- 1)
      | Some t \<Rightarrow> float_of_str (tag_text t) = Some (episode_rating row)) \<and>
     (case total_votes_node blk of
        None \<Rightarrow> episode_total_votes row = 0
      | Some t \<Rightarrow>
          py_int (filter (\<lambda>c. c \<noteq> CHR ''('' \<and> c \<noteq> CHR '')'' \<and> c \<noteq> CHR '','') (tag_text t)) =
            Inr (episode_total_votes row)) \<and>
     - (2 ^ 63) \<le> episode_total_votes row \<and> episode_total_votes row < 2 ^ 63 \<and>
     (case item_description blk of
        None \<Rightarrow> episode_description row = ''N/A''
      | Some t \<Rightarrow> episode_description row = py_strip (tag_text t))"
proof
  fix row assume "row \<in> set rows"
  from get_ratings_row_values [OF assms this] obtain entry seasons season_nos season_no page blk where
    "filter (\<lambda>r. series_name r = name) (top_list w) = [entry] \<and>
     fst (get_last_season name session w) = Inr seasons \<and>
     np_arange 1 (seasons + 1) = Inr season_nos \<and> season_no \<in> set season_nos \<and>
     session (season_url (series_link entry) season_no) = Inr page \<and>
     blk \<in> set (info_blocks page) \<and>
     ep_series_name row = name \<and>
     to_int64 (PStr (series_rank entry)) = Inr (ep_series_rank row) \<and>
     to_int64 (PStr (series_origin_year entry)) = Inr (ep_series_origin_year row) \<and>
     ep_series_link row = series_link entry \<and>
     ep_series_n_seasons row = seasons \<and>
     season row = season_no \<and>
     (\<exists>t c. episode_number blk = Some t \<and> tag_attrs t ''content'' = Some c \<and>
        to_int64 (PStr c) = Inr (episode row)) \<and>
     to_float64 float_of_str float_of_int
       (case rating_star blk of None \<Rightarrow> PInt (- 1) | Some t \<Rightarrow> PStr (tag_text t)) =
       Inr (episode_rating row) \<and>
     to_int64
       (case total_votes_node blk of None \<Rightarrow> PInt 0
        | Some t \<Rightarrow> PStr (filter (\<lambda>c. c \<noteq> CHR ''('' \<and> c \<noteq> CHR '')'' \<and> c \<noteq> CHR '','') (tag_text t))) =
       Inr (episode_total_votes row) \<and>
     episode_description row =
       (case item_description blk of None \<Rightarrow> ''N/A'' | Some t \<Rightarrow> py_strip (tag_text t))"
    by blast
  then have
    page: "session (season_url (series_link entry) season_no) = Inr page"
      "blk \<in> set (info_blocks page)" "ep_series_link row = series_link entry"
    and rating: "to_float64 float_of_str float_of_int
       (case rating_star blk of None \<Rightarrow> PInt (- 1) | Some t \<Rightarrow> PStr (tag_text t)) =
       Inr (episode_rating row)"
    and votes: "to_int64
       (case total_votes_node blk of None \<Rightarrow> PInt 0
        | Some t \<Rightarrow> PStr (filter (\<lambda>c. c \<noteq> CHR ''('' \<and> c \<noteq> CHR '')'' \<and> c \<noteq> CHR '','') (tag_text t))) =
       Inr (episode_total_votes row)"
    and description: "episode_description row =
       (case item_description blk of None \<Rightarrow> ''N/A'' | Some t \<Rightarrow> py_strip (tag_text t))"
    by simp_all
  have r: "case rating_star blk of
        None \<Rightarrow> episode_rating row = float_of_int (- 1)
      | Some t \<Rightarrow> float_of_str (tag_text t) = Some (episode_rating row)"
    using rating by (auto simp: to_float64_def split: option.splits)
  have v: "(case total_votes_node blk of
        None \<Rightarrow> episode_total_votes row = 0
      | Some t \<Rightarrow>
          py_int (filter (\<lambda>c. c \<noteq> CHR ''('' \<and> c \<noteq> CHR '')'' \<and> c \<noteq> CHR '','') (tag_text t)) =
            Inr (episode_total_votes row)) \<and>
     - (2 ^ 63) \<le> episode_total_votes row \<and> episode_total_votes row < 2 ^ 63"
  proof (cases "total_votes_node blk")
    case None
    with votes show ?thesis by (simp add: to_int64_def int64_range_def)
  next
    case (Some t)
    with votes to_int64_PStr show ?thesis by fastforce
  qed
  have d: "case item_description blk of
        None \<Rightarrow> episode_description row = ''N/A''
      | Some t \<Rightarrow> episode_description row = py_strip (tag_text t)"
    using description by (simp split: option.splits)
  from page r v d show "\<exists>season_no page blk.
     session (season_url (ep_series_link row) season_no) = Inr page \<and>
     blk \<in> set (info_blocks page) \<and>
     (case rating_star blk of
        None \<Rightarrow> episode_rating row = float_of_int (- 1)
      | Some t \<Rightarrow> float_of_str (tag_text t) = Some (episode_rating row)) \<and>
     (case total_votes_node blk of
        None \<Rightarrow> episode_total_votes row = 0
      | Some t \<Rightarrow>
          py_int (filter (\<lambda>c. c \<noteq> CHR ''('' \<and> c \<noteq> CHR '')'' \<and> c \<noteq> CHR '','') (tag_text t)) =
            Inr (episode_total_votes row)) \<and>
     - (2 ^ 63) \<le> episode_total_votes row \<and> episode_total_votes row < 2 ^ 63 \<and>
     (case item_description blk of
        None \<Rightarrow> episode_description row = ''N/A''
      | Some t \<Rightarrow> episode_description row = py_strip (tag_text t))"
    by auto
qed

theorem episode_values_witness:
  "fst (get_ratings example_float_of_str example_float_of_int example_arange ''Breaking Bad''
     (series_session [full_block]) example_world) = Inr [full_entry] \<and>
   (\<exists>season_no page blk.
     series_session [full_block] (season_url (ep_series_link full_entry) season_no) = Inr page \<and>
     blk \<in> set (info_blocks page) \<and>
     (case rating_star blk of
        None \<Rightarrow> episode_rating full_entry = example_float_of_int (- 1)
      | Some t \<Rightarrow> example_float_of_str (tag_text t) = Some (episode_rating full_entry)) \<and>
     (case total_votes_node blk of
        None \<Rightarrow> episode_total_votes full_entry = 0
      | Some t \<Rightarrow>
          py_int (filter (\<lambda>c. c \<noteq> CHR ''('' \<and> c \<noteq> CHR '')'' \<and> c \<noteq> CHR '','') (tag_text t)) =
            Inr (episode_total_votes full_entry)) \<and>
     - (2 ^ 63) \<le> episode_total_votes full_entry \<and> episode_total_votes full_entry < 2 ^ 63 \<and>
     (case item_description blk of
        None \<Rightarrow> episode_description full_entry = ''N/A''
      | Some t \<Rightarrow> episode_description full_entry = py_strip (tag_text t)))"
proof -
  have run: "fst (get_ratings example_float_of_str example_float_of_int example_arange ''Breaking Bad''
     (series_session [full_block]) example_world) = Inr [full_entry]"
    by (simp add: collector_eval full_block_def full_entry_def)
  have mem: "full_entry \<in> set [full_entry]" by simp
  show ?thesis
    by (rule conjI [OF run bspec [OF episode_values [OF run_pair [OF run]] mem]])
qed

text \<open>
  The claim as stated fails on a block whose rating text is \<open>12.5\<close>, whose vote text is
  \<open>(-5)\<close> and whose description is blank: the row has a rating above 10, a negative
  vote count and an empty description.
\<close>

theorem episode_values_counterexample:
  "fst (get_ratings example_float_of_str example_float_of_int example_arange ''Breaking Bad''
     (series_session [odd_block]) example_world) = Inr [odd_entry] \<and>
   \<not> (episode_rating odd_entry = - 1 \<or>
      (0 \<le> episode_rating odd_entry \<and> episode_rating odd_entry \<le> 10)) \<and>
   episode_total_votes odd_entry < 0 \<and>
   episode_description odd_entry = [] \<and>
   episode_description odd_entry \<noteq> ''N/A''"
proof -
  have run: "fst (get_ratings example_float_of_str example_float_of_int example_arange ''Breaking Bad''
     (series_session [odd_block]) example_world) = Inr [odd_entry]"
    by (simp add: collector_eval odd_block_def odd_entry_def)
  then show ?thesis by (simp add: odd_entry_def episode_of_def)
qed

text \<open>
  C7. A series with one season (the array of the seasons holds the one value 1) whose
  season page holds one episode block with a
  rating node, a vote node, a description node and an episode-number node yields a
  table of exactly one row: the episode is the integer read from the \<open>content\<close>
  attribute, the rating the float read from the rating text, the vote count the integer
  read from the vote text without its parentheses and commas. With the texts \<open>8.4\<close>,
  \<open>(1,234)\<close> and the content \<open>3\<close> the row has episode 3, rating 8.4 and 1234 votes.
\<close>

theorem single_episode_row:
  assumes entry: "filter (\<lambda>r. series_name r = name) (top_list w) = [entry]"
    and detail: "session (base_url @ series_link entry) = Inr detail"
      "season_selector detail = None"
    and range: "np_arange 1 2 = Inr [1]"
    and page: "session (season_url (series_link entry) 1) = Inr page" "info_blocks page = [blk]"
    and nodes: "rating_star blk = Some rn" "total_votes_node blk = Some vn"
      "item_description blk = Some dn" "episode_number blk = Some nn"
      "tag_attrs nn ''content'' = Some content"
    and conv: "to_int64 (PStr (series_rank entry)) = Inr rank"
      "to_int64 (PStr (series_origin_year entry)) = Inr year"
      "to_int64 (PStr content) = Inr number"
      "float_of_str (tag_text rn) = Some rating"
      "to_int64 (PStr (filter (\<lambda>c. c \<noteq> CHR ''('' \<and> c \<noteq> CHR '')'' \<and> c \<noteq> CHR '','') (tag_text vn))) =
         Inr votes"
  shows "fst (get_ratings float_of_str float_of_int np_arange name session w) =
     Inr [\<lparr>ep_series_name = name, ep_series_rank = rank, ep_series_origin_year = year,
           ep_series_link = series_link entry, ep_series_n_seasons = 1, season = 1,
           episode = number, episode_rating = rating, episode_total_votes = votes,
           episode_description = py_strip (tag_text dn)\<rparr>]"
proof -
  have link: "lookup_item series_link name (top_list w) = Inr (series_link entry)"
    and cols: "lookup_item series_rank name (top_list w) = Inr (series_rank entry)"
      "lookup_item series_origin_year name (top_list w) = Inr (series_origin_year entry)"
    using entry by (simp_all add: lookup_item_def)
  let ?w1 = "emit Sleep (emit (Print (Scraping name)) (emit (Print Banner) w))"
  have "lookup_item series_link name (top_list ?w1) = Inr (series_link entry)"
    using link by simp
  note found1 = try_series_link_found [OF this]
  have seasons: "get_last_season name session w =
      (Inr 1, emit (Print (TotalSeasons 1)) (emit (Get (base_url @ series_link entry)) ?w1))"
    using detail by (simp add: get_last_season_def found1)
  have row: "episode_row name (series_link entry) 1 1 (top_list w) blk =
      Inr \<lparr>raw_series_name = name, raw_series_rank = series_rank entry,
           raw_series_origin_year = series_origin_year entry,
           raw_series_link = series_link entry, raw_series_n_seasons = 1, raw_season = 1,
           raw_episode = content, raw_episode_rating = PStr (tag_text rn),
           raw_episode_total_votes =
             PStr (filter (\<lambda>c. c \<noteq> CHR ''('' \<and> c \<noteq> CHR '')'' \<and> c \<noteq> CHR '','') (tag_text vn)),
           raw_episode_description = py_strip (tag_text dn)\<rparr>"
    using nodes cols by (simp add: episode_row_eq py_getitem_def of_find_def)
  have one: "to_int64 (PInt 1) = Inr 1"
    by (simp add: to_int64_def int64_range_def)
  have rating: "to_float64 float_of_str float_of_int (PStr (tag_text rn)) = Inr rating"
    using conv(4) by (simp add: to_float64_def)
  show ?thesis
    using page range
    by (simp add: get_ratings_def try_series_link_found [OF link] seasons row astype_def
        conv one rating)
qed


theorem single_episode_row_witness:
  "fst (get_ratings example_float_of_str example_float_of_int example_arange ''Breaking Bad''
     (series_session [full_block]) example_world) = Inr [full_entry] \<and>
   tag_text (text_node ''8.4'') = ''8.4'' \<and> tag_text (text_node ''(1,234)'') = ''(1,234)'' \<and>
   tag_attrs (number_node ''3'') ''content'' = Some ''3'' \<and>
   episode full_entry = 3 \<and> episode_rating full_entry = 42 / 5 \<and>
   episode_total_votes full_entry = 1234"
proof -
  have entry: "filter (\<lambda>r. series_name r = ''Breaking Bad'') (top_list example_world) =
      [breaking_bad_entry]"
    by (simp add: example_world_def example_top_list_def breaking_bad_entry_def)
  have detail: "series_session [full_block] (base_url @ series_link breaking_bad_entry) =
      Inr empty_page" "season_selector empty_page = None"
    by (simp_all add: series_session_def base_url_def breaking_bad_entry_def empty_page_def)
  have page: "series_session [full_block] (season_url (series_link breaking_bad_entry) 1) =
      Inr (season_page [full_block])" "info_blocks (season_page [full_block]) = [full_block]"
    by (simp_all add: series_session_def season_url_def base_url_def show_int_def
        show_nat.simps breaking_bad_entry_def season_page_def)
  have nodes: "rating_star full_block = Some (text_node ''8.4'')"
    "total_votes_node full_block = Some (text_node ''(1,234)'')"
    "item_description full_block = Some (text_node '' A teacher turns to crime. '')"
    "episode_number full_block = Some (number_node ''3'')"
    "tag_attrs (number_node ''3'') ''content'' = Some ''3''"
    by (simp_all add: full_block_def number_node_def)
  have ints: "to_int64 (PStr (series_rank breaking_bad_entry)) = Inr 1"
    "to_int64 (PStr (series_origin_year breaking_bad_entry)) = Inr 2008"
    "to_int64 (PStr ''3'') = Inr 3"
    "to_int64 (PStr (filter (\<lambda>c. c \<noteq> CHR ''('' \<and> c \<noteq> CHR '')'' \<and> c \<noteq> CHR '','')
        (tag_text (text_node ''(1,234)'')))) = Inr 1234"
    by (simp_all add: breaking_bad_entry_def text_node_def to_int64_def int64_range_def
        py_int_def is_int_space_def is_digit_def digits_value_def digit_val_def)
  have float: "example_float_of_str (tag_text (text_node ''8.4'')) = Some (42 / 5)"
    by (simp add: example_float_of_str_def text_node_def)
  have range: "example_arange 1 2 = Inr [1]"
    by (simp add: example_arange_def)
  have "fst (get_ratings example_float_of_str example_float_of_int example_arange ''Breaking Bad''
     (series_session [full_block]) example_world) =
     Inr [\<lparr>ep_series_name = ''Breaking Bad'', ep_series_rank = 1, ep_series_origin_year = 2008,
           ep_series_link = series_link breaking_bad_entry, ep_series_n_seasons = 1, season = 1,
           episode = 3, episode_rating = 42 / 5, episode_total_votes = 1234,
           episode_description = py_strip (tag_text (text_node '' A teacher turns to crime. ''))\<rparr>]"
    by (rule single_episode_row [where session = "series_session [full_block]"
          and float_of_str = example_float_of_str and np_arange = example_arange,
          OF entry detail range page nodes ints(1,2,3) float ints(4)])
  then show ?thesis
    using nodes(5)
    by (simp add: full_entry_def episode_of_def breaking_bad_entry_def text_node_def
        py_strip_def is_space_def)
qed


text \<open>
  C9. The rank and the origin year of a row of the top list are the texts cut from the
  cell, whatever they are: \<open>get_top_list\<close> converts nothing. The rows \<open>get_ratings\<close>
  appends carry the same strings, and only the conversion of the columns at its end
  reads them as integers.
\<close>

theorem rank_and_year_stay_strings:
  "(get_top_list requests_get = Inr rows \<and> requests_get top_url = Inr page \<longrightarrow>
      list_all2 (\<lambda>ser row.
          series_rank row = py_strip (before_first CHR ''.'' (cell_text ser)) \<and>
          series_origin_year row =
            py_strip (filter (\<lambda>c. c \<noteq> CHR '')'')
              (before_first CHR ''('' (after_first CHR ''('' (cell_text ser)))))
        (title_cells page) rows) \<and>
   (episode_row name link seasons season_no tbl blk = Inr raw \<longrightarrow>
      lookup_item series_rank name tbl = Inr (raw_series_rank raw) \<and>
      lookup_item series_origin_year name tbl = Inr (raw_series_origin_year raw)) \<and>
   (get_ratings float_of_str float_of_int np_arange name session w = (Inr entries, w') \<longrightarrow>
      (\<exists>e. filter (\<lambda>r. series_name r = name) (top_list w) = [e] \<and>
         (\<forall>entry \<in> set entries.
            py_int (series_rank e) = Inr (ep_series_rank entry) \<and>
            py_int (series_origin_year e) = Inr (ep_series_origin_year entry))))"
proof -
  have top: "list_all2 (\<lambda>ser row.
          series_rank row = py_strip (before_first CHR ''.'' (cell_text ser)) \<and>
          series_origin_year row =
            py_strip (filter (\<lambda>c. c \<noteq> CHR '')'')
              (before_first CHR ''('' (after_first CHR ''('' (cell_text ser)))))
        (title_cells page) rows"
    if "get_top_list requests_get = Inr rows" "requests_get top_url = Inr page"
  proof -
    from get_top_list_Inr [OF that] obtain rows0 where
      cells: "list_all2 (\<lambda>ser row. parse_cell ser = Inr row) (title_cells page) rows0"
      and rows: "rows = map add_series_id rows0"
      by blast
    show ?thesis
      unfolding rows list_all2_map2
      by (rule list_all2_mono [OF cells])
         (simp add: add_series_id_def parse_cell_Inr(1) parse_cell_Inr(3))
  qed
  have raw: "lookup_item series_rank name tbl = Inr (raw_series_rank raw) \<and>
      lookup_item series_origin_year name tbl = Inr (raw_series_origin_year raw)"
    if "episode_row name link seasons season_no tbl blk = Inr raw"
    using that by (auto simp: episode_row_eq and_then_def split: sum.splits)
  have table: "\<exists>e. filter (\<lambda>r. series_name r = name) (top_list w) = [e] \<and>
         (\<forall>entry \<in> set entries.
            py_int (series_rank e) = Inr (ep_series_rank entry) \<and>
            py_int (series_origin_year e) = Inr (ep_series_origin_year entry))"
    if run: "get_ratings float_of_str float_of_int np_arange name session w = (Inr entries, w')"
  proof -
    from get_ratings_Inr [OF run] obtain link where
      "lookup_item series_link name (top_list w) = Inr link"
      by blast
    then obtain e where e: "filter (\<lambda>r. series_name r = name) (top_list w) = [e]"
      using lookup_item_cases [of name "top_list w" series_link] by auto
    have "py_int (series_rank e) = Inr (ep_series_rank entry) \<and>
        py_int (series_origin_year e) = Inr (ep_series_origin_year entry)"
      if "entry \<in> set entries" for entry
      using get_ratings_row_values [OF run that] e to_int64_PStr by fastforce
    with e show ?thesis by blast
  qed
  from top raw table show ?thesis by blast
qed

theorem rank_and_year_stay_strings_witness:
  "get_top_list (chart_get ''one. Breaking Bad (MMVIII)'') =
     Inr [\<lparr>series_name = ''Breaking Bad'', series_rank = ''one'',
           series_origin_year = ''MMVIII'', series_link = ''/title/tt0903747/'',
           series_id = ''Breaking Bad (MMVIII)''\<rparr>] \<and>
   py_strip (before_first CHR ''.'' ''one. Breaking Bad (MMVIII)'') = ''one'' \<and>
   fst (get_ratings example_float_of_str example_float_of_int example_arange ''Breaking Bad''
     (series_session [full_block]) example_world) = Inr [full_entry] \<and>
   filter (\<lambda>r. series_name r = ''Breaking Bad'') (top_list example_world) =
     [breaking_bad_entry] \<and>
   series_rank breaking_bad_entry = ''1'' \<and>
   py_int (series_rank breaking_bad_entry) = Inr (ep_series_rank full_entry) \<and>
   ep_series_rank full_entry = 1 \<and>
   series_origin_year breaking_bad_entry = ''2008'' \<and>
   py_int (series_origin_year breaking_bad_entry) = Inr (ep_series_origin_year full_entry) \<and>
   ep_series_origin_year full_entry = 2008"
proof -
  let ?row = "\<lparr>series_name = ''Breaking Bad'', series_rank = ''one'',
           series_origin_year = ''MMVIII'', series_link = ''/title/tt0903747/'',
           series_id = ''Breaking Bad (MMVIII)''\<rparr>"
  have top: "get_top_list (chart_get ''one. Breaking Bad (MMVIII)'') = Inr [?row]"
    by (simp add: top_list_eval)
  have page: "chart_get ''one. Breaking Bad (MMVIII)'' top_url =
      Inr (chart_page ''one. Breaking Bad (MMVIII)'')"
    by (simp add: chart_get_def)
  have run: "fst (get_ratings example_float_of_str example_float_of_int example_arange ''Breaking Bad''
     (series_session [full_block]) example_world) = Inr [full_entry]"
    by (simp add: collector_eval full_block_def full_entry_def)
  have entry: "filter (\<lambda>r. series_name r = ''Breaking Bad'') (top_list example_world) =
      [breaking_bad_entry]"
    by (simp add: example_world_def example_top_list_def breaking_bad_entry_def)
  have raw: "episode_row ''Breaking Bad'' ''/title/tt0903747/'' 1 1 example_top_list full_block =
     Inr \<lparr>raw_series_name = ''Breaking Bad'', raw_series_rank = ''1'',
          raw_series_origin_year = ''2008'', raw_series_link = ''/title/tt0903747/'',
          raw_series_n_seasons = 1, raw_season = 1, raw_episode = ''3'',
          raw_episode_rating = PStr ''8.4'', raw_episode_total_votes = PStr ''1234'',
          raw_episode_description = ''A teacher turns to crime.''\<rparr>"
    by (simp add: collector_eval full_block_def)
  from rank_and_year_stay_strings [where requests_get = "chart_get ''one. Breaking Bad (MMVIII)''"
      and rows = "[?row]" and page = "chart_page ''one. Breaking Bad (MMVIII)''"
      and float_of_str = example_float_of_str and float_of_int = example_float_of_int
      and np_arange = example_arange
      and name = "''Breaking Bad''" and session = "series_session [full_block]"
      and w = example_world and entries = "[full_entry]"
      and w' = "snd (get_ratings example_float_of_str example_float_of_int example_arange ''Breaking Bad''
          (series_session [full_block]) example_world)"
      and link = "''/title/tt0903747/''" and seasons = 1 and season_no = 1
      and tbl = example_top_list and blk = full_block
      and raw = "\<lparr>raw_series_name = ''Breaking Bad'', raw_series_rank = ''1'',
          raw_series_origin_year = ''2008'', raw_series_link = ''/title/tt0903747/'',
          raw_series_n_seasons = 1, raw_season = 1, raw_episode = ''3'',
          raw_episode_rating = PStr ''8.4'', raw_episode_total_votes = PStr ''1234'',
          raw_episode_description = ''A teacher turns to crime.''\<rparr>"]
    top page run_pair [OF run] entry raw
  have "series_rank ?row = py_strip (before_first CHR ''.'' ''one. Breaking Bad (MMVIII)'') \<and>
    py_int (series_rank breaking_bad_entry) = Inr (ep_series_rank full_entry) \<and>
    py_int (series_origin_year breaking_bad_entry) = Inr (ep_series_origin_year full_entry)"
    by (simp add: chart_page_def)
  then show ?thesis
    using top run entry
    by (simp add: breaking_bad_entry_def full_entry_def episode_of_def)
qed

end
